theory Spec2Isabelle
  imports Main "HOL-Library.Word"
begin

unbundle bit_operations_syntax

section \<open>The relation encoder and the LVM bytecode generator of LVMGenerator.h\<close>

text \<open>
  This theory embeds the two classes of \<^verbatim>\<open>src/LVMGenerator.h\<close>: \<^verbatim>\<open>RelationEncoder\<close>, which
  interns relations into dense ids, and \<^verbatim>\<open>LVMGenerator\<close>, the visitor that lowers a RAM tree
  into a linear stream of words. Mutation of the member variables is explicit state
  passing over a record of the members; an assertion failure of the source is an error
  value.
\<close>

subsection \<open>Domain values\<close>

text \<open>
  Modelled from the spec: \<^verbatim>\<open>RamTypes.h\<close> is not among the sources. The spec calls a
  domain value "the machine-word-width signed integer that represents every relation
  column value" and says that all stream words have this width; the width taken here is
  that of the default build, 32 bits. \<^verbatim>\<open>RAM_DOMAIN_SIZE\<close> is the number of bits of a
  domain value, \<^verbatim>\<open>MAX_RAM_DOMAIN\<close> and \<^verbatim>\<open>MIN_RAM_DOMAIN\<close> its largest and smallest
  signed value.
\<close>

type_synonym RamDomain = "32 word"

definition RAM_DOMAIN_SIZE :: nat where
  "RAM_DOMAIN_SIZE = 32"

definition MAX_RAM_DOMAIN :: RamDomain where
  "MAX_RAM_DOMAIN = 2147483647"

definition MIN_RAM_DOMAIN :: RamDomain where
  "MIN_RAM_DOMAIN = 2147483648"

subsection \<open>Relations of the RAM program\<close>

text \<open>
  The enumeration \<^verbatim>\<open>RelationRepresentation\<close> is declared outside the sources at hand.
  \<^verbatim>\<open>createRelation\<close> names four of its enumerators and has a \<^verbatim>\<open>default\<close> label
  for every other value; \<open>INFO\<close> stands for those.
\<close>

datatype RelationRepresentation = DEFAULT | BRIE | BTREE | EQREL | INFO

text \<open>
  Modelled from the spec: the index analysis (\<^verbatim>\<open>RamIndexAnalysis\<close>, \<^verbatim>\<open>MinIndexSelection\<close>)
  is not among the sources. The spec describes it as an oracle that maps a search
  signature to "the position of the matching index in the relation's selected
  lexicographic order set", compilation being aborted when there is no match. The
  order set of a relation is a finite table from signatures to positions.
\<close>

type_synonym SearchSignature = nat
type_synonym MinIndexSelection = "(SearchSignature \<times> nat) list"

definition getLexOrderNum :: "MinIndexSelection \<Rightarrow> SearchSignature \<Rightarrow> nat option" where
  "getLexOrderNum orderSet signature = map_of orderSet signature"

text \<open>
  What the generator reads of a \<^verbatim>\<open>RamRelation\<close>: its name, arity, representation and
  attribute type qualifiers. The field \<open>getIndexes\<close> is the answer of
  \<^verbatim>\<open>isa->getIndexes(rel)\<close> for this relation.
\<close>

record RamRelation =
  getName :: string
  getArity :: nat
  getRepresentation :: RelationRepresentation
  getAttributeTypeQualifiers :: "string list"
  getIndexes :: MinIndexSelection

subsection \<open>Relation descriptors\<close>

text \<open>
  The three descriptor classes that \<^verbatim>\<open>createRelation\<close> instantiates, and the optional
  index factory passed to the constructor of \<^verbatim>\<open>LVMRelation\<close> (\<open>None\<close> when the
  argument is left to its default).
\<close>

datatype LVMRelationClass = LVMRelation | LVMEqRelation | LVMIndirectRelation

datatype IndexFactory = createBrieIndex

record LVMRelationDescr =
  relClass :: LVMRelationClass
  relArity :: nat
  relName :: string
  relQualifiers :: "string list"
  relOrderSet :: MinIndexSelection
  relFactory :: "IndexFactory option"

definition make_unique ::
  "LVMRelationClass \<Rightarrow> RamRelation \<Rightarrow> IndexFactory option \<Rightarrow> LVMRelationDescr option" where
  "make_unique c rel f =
     Some \<lparr>relClass = c, relArity = getArity rel, relName = getName rel,
           relQualifiers = getAttributeTypeQualifiers rel, relOrderSet = getIndexes rel,
           relFactory = f\<rparr>"

definition MAX_DIRECT_INDEX_SIZE :: nat where
  "MAX_DIRECT_INDEX_SIZE = 12"

text \<open>\<^verbatim>\<open>createRelation\<close>; the result \<open>None\<close> is the null pointer of the last line.\<close>

definition createRelation :: "RamRelation \<Rightarrow> LVMRelationDescr option" where
  "createRelation rel =
     (if getArity rel > MAX_DIRECT_INDEX_SIZE then make_unique LVMIndirectRelation rel None
      else case getRepresentation rel of
             BTREE \<Rightarrow> make_unique LVMRelation rel None
           | BRIE \<Rightarrow> make_unique LVMRelation rel (Some createBrieIndex)
           | EQREL \<Rightarrow> make_unique LVMEqRelation rel None
           | DEFAULT \<Rightarrow> make_unique LVMRelation rel None
           | _ \<Rightarrow> None)"

subsection \<open>The relation encoder\<close>

text \<open>
  \<open>relNameToIndex\<close> is the \<^verbatim>\<open>std::map\<close> from names to ids, kept as an association list
  in insertion order: an entry is added only for a name that \<^verbatim>\<open>find\<close> did not find, so
  its length is the \<^verbatim>\<open>size()\<close> of the map. \<open>relationMap\<close> is the vector of descriptors.
\<close>

record RelationEncoder =
  relNameToIndex :: "(string \<times> nat) list"
  relationMap :: "LVMRelationDescr option list"

definition encodeRelation :: "RamRelation \<Rightarrow> RelationEncoder \<Rightarrow> nat \<times> RelationEncoder" where
  "encodeRelation rel enc =
     (let relationName = getName rel in
      case map_of (relNameToIndex enc) relationName of
        None \<Rightarrow>
          (let enc1 = enc\<lparr>relNameToIndex :=
                         relNameToIndex enc @ [(relationName, length (relNameToIndex enc))]\<rparr>;
               enc2 = enc1\<lparr>relationMap := relationMap enc1 @ [createRelation rel]\<rparr>
           in (length (relNameToIndex enc2) - 1, enc2))
      | Some second \<Rightarrow> (second, enc))"

text \<open>
  \<^verbatim>\<open>decodeRelation\<close> indexes the vector without a range check; the outer \<open>None\<close> of the
  model is an index outside the vector, \<open>Some None\<close> a stored null pointer.
\<close>

definition decodeRelation :: "RelationEncoder \<Rightarrow> nat \<Rightarrow> LVMRelationDescr option option" where
  "decodeRelation enc relId =
     (if relId < length (relationMap enc) then Some (relationMap enc ! relId) else None)"

definition getSize :: "RelationEncoder \<Rightarrow> nat" where
  "getSize enc = length (relationMap enc)"

text \<open>The constructor: an empty encoder that encodes every relation of the program.\<close>

definition emptyEncoder :: RelationEncoder where
  "emptyEncoder = \<lparr>relNameToIndex = [], relationMap = []\<rparr>"

definition newRelationEncoder :: "RamRelation list \<Rightarrow> RelationEncoder" where
  "newRelationEncoder allRelations =
     fold (\<lambda>rel enc. snd (encodeRelation rel enc)) allRelations emptyEncoder"

text \<open>
  The two containers grow together; every encoder built by the constructor and the
  calls of \<^verbatim>\<open>encodeRelation\<close> satisfies this.
\<close>

definition encoderInv :: "RelationEncoder \<Rightarrow> bool" where
  "encoderInv enc \<longleftrightarrow> length (relNameToIndex enc) = length (relationMap enc)"

subsection \<open>The instruction stream\<close>

text \<open>
  The enumeration \<^verbatim>\<open>LVM_Type\<close> of opcodes is declared in \<^verbatim>\<open>LVMCode.h\<close>, outside the
  sources at hand, so the numbers of its enumerators are not known. An enumerator is
  identified by its name.
\<close>

datatype LVM_Type = LVM string

abbreviation LVM_Number :: LVM_Type where
  "LVM_Number \<equiv> LVM ''Number''"

abbreviation LVM_TupleElement :: LVM_Type where
  "LVM_TupleElement \<equiv> LVM ''TupleElement''"

abbreviation LVM_AutoIncrement :: LVM_Type where
  "LVM_AutoIncrement \<equiv> LVM ''AutoIncrement''"

abbreviation LVM_OP_ORD :: LVM_Type where
  "LVM_OP_ORD \<equiv> LVM ''OP_ORD''"

abbreviation LVM_OP_STRLEN :: LVM_Type where
  "LVM_OP_STRLEN \<equiv> LVM ''OP_STRLEN''"

abbreviation LVM_OP_NEG :: LVM_Type where
  "LVM_OP_NEG \<equiv> LVM ''OP_NEG''"

abbreviation LVM_OP_BNOT :: LVM_Type where
  "LVM_OP_BNOT \<equiv> LVM ''OP_BNOT''"

abbreviation LVM_OP_LNOT :: LVM_Type where
  "LVM_OP_LNOT \<equiv> LVM ''OP_LNOT''"

abbreviation LVM_OP_TONUMBER :: LVM_Type where
  "LVM_OP_TONUMBER \<equiv> LVM ''OP_TONUMBER''"

abbreviation LVM_OP_TOSTRING :: LVM_Type where
  "LVM_OP_TOSTRING \<equiv> LVM ''OP_TOSTRING''"

abbreviation LVM_OP_ADD :: LVM_Type where
  "LVM_OP_ADD \<equiv> LVM ''OP_ADD''"

abbreviation LVM_OP_SUB :: LVM_Type where
  "LVM_OP_SUB \<equiv> LVM ''OP_SUB''"

abbreviation LVM_OP_MUL :: LVM_Type where
  "LVM_OP_MUL \<equiv> LVM ''OP_MUL''"

abbreviation LVM_OP_DIV :: LVM_Type where
  "LVM_OP_DIV \<equiv> LVM ''OP_DIV''"

abbreviation LVM_OP_EXP :: LVM_Type where
  "LVM_OP_EXP \<equiv> LVM ''OP_EXP''"

abbreviation LVM_OP_MOD :: LVM_Type where
  "LVM_OP_MOD \<equiv> LVM ''OP_MOD''"

abbreviation LVM_OP_BAND :: LVM_Type where
  "LVM_OP_BAND \<equiv> LVM ''OP_BAND''"

abbreviation LVM_OP_BOR :: LVM_Type where
  "LVM_OP_BOR \<equiv> LVM ''OP_BOR''"

abbreviation LVM_OP_BXOR :: LVM_Type where
  "LVM_OP_BXOR \<equiv> LVM ''OP_BXOR''"

abbreviation LVM_OP_LAND :: LVM_Type where
  "LVM_OP_LAND \<equiv> LVM ''OP_LAND''"

abbreviation LVM_OP_LOR :: LVM_Type where
  "LVM_OP_LOR \<equiv> LVM ''OP_LOR''"

abbreviation LVM_OP_MAX :: LVM_Type where
  "LVM_OP_MAX \<equiv> LVM ''OP_MAX''"

abbreviation LVM_OP_MIN :: LVM_Type where
  "LVM_OP_MIN \<equiv> LVM ''OP_MIN''"

abbreviation LVM_OP_CAT :: LVM_Type where
  "LVM_OP_CAT \<equiv> LVM ''OP_CAT''"

abbreviation LVM_OP_SUBSTR :: LVM_Type where
  "LVM_OP_SUBSTR \<equiv> LVM ''OP_SUBSTR''"

abbreviation LVM_OP_EQ :: LVM_Type where
  "LVM_OP_EQ \<equiv> LVM ''OP_EQ''"

abbreviation LVM_OP_NE :: LVM_Type where
  "LVM_OP_NE \<equiv> LVM ''OP_NE''"

abbreviation LVM_OP_LT :: LVM_Type where
  "LVM_OP_LT \<equiv> LVM ''OP_LT''"

abbreviation LVM_OP_LE :: LVM_Type where
  "LVM_OP_LE \<equiv> LVM ''OP_LE''"

abbreviation LVM_OP_GT :: LVM_Type where
  "LVM_OP_GT \<equiv> LVM ''OP_GT''"

abbreviation LVM_OP_GE :: LVM_Type where
  "LVM_OP_GE \<equiv> LVM ''OP_GE''"

abbreviation LVM_OP_MATCH :: LVM_Type where
  "LVM_OP_MATCH \<equiv> LVM ''OP_MATCH''"

abbreviation LVM_OP_NOT_MATCH :: LVM_Type where
  "LVM_OP_NOT_MATCH \<equiv> LVM ''OP_NOT_MATCH''"

abbreviation LVM_OP_CONTAINS :: LVM_Type where
  "LVM_OP_CONTAINS \<equiv> LVM ''OP_CONTAINS''"

abbreviation LVM_OP_NOT_CONTAINS :: LVM_Type where
  "LVM_OP_NOT_CONTAINS \<equiv> LVM ''OP_NOT_CONTAINS''"

abbreviation LVM_UserDefinedOperator :: LVM_Type where
  "LVM_UserDefinedOperator \<equiv> LVM ''UserDefinedOperator''"

abbreviation LVM_PackRecord :: LVM_Type where
  "LVM_PackRecord \<equiv> LVM ''PackRecord''"

abbreviation LVM_Argument :: LVM_Type where
  "LVM_Argument \<equiv> LVM ''Argument''"

abbreviation LVM_True :: LVM_Type where
  "LVM_True \<equiv> LVM ''True''"

abbreviation LVM_False :: LVM_Type where
  "LVM_False \<equiv> LVM ''False''"

abbreviation LVM_Conjunction :: LVM_Type where
  "LVM_Conjunction \<equiv> LVM ''Conjunction''"

abbreviation LVM_Negation :: LVM_Type where
  "LVM_Negation \<equiv> LVM ''Negation''"

abbreviation LVM_EmptinessCheck :: LVM_Type where
  "LVM_EmptinessCheck \<equiv> LVM ''EmptinessCheck''"

abbreviation LVM_ExistenceCheck :: LVM_Type where
  "LVM_ExistenceCheck \<equiv> LVM ''ExistenceCheck''"

abbreviation LVM_ExistenceCheckOneArg :: LVM_Type where
  "LVM_ExistenceCheckOneArg \<equiv> LVM ''ExistenceCheckOneArg''"

abbreviation LVM_ContainCheck :: LVM_Type where
  "LVM_ContainCheck \<equiv> LVM ''ContainCheck''"

abbreviation LVM_Constraint :: LVM_Type where
  "LVM_Constraint \<equiv> LVM ''Constraint''"

abbreviation LVM_Scan :: LVM_Type where
  "LVM_Scan \<equiv> LVM ''Scan''"

abbreviation LVM_Choice :: LVM_Type where
  "LVM_Choice \<equiv> LVM ''Choice''"

abbreviation LVM_IndexScan :: LVM_Type where
  "LVM_IndexScan \<equiv> LVM ''IndexScan''"

abbreviation LVM_IndexChoice :: LVM_Type where
  "LVM_IndexChoice \<equiv> LVM ''IndexChoice''"

abbreviation LVM_Search :: LVM_Type where
  "LVM_Search \<equiv> LVM ''Search''"

abbreviation LVM_UnpackRecord :: LVM_Type where
  "LVM_UnpackRecord \<equiv> LVM ''UnpackRecord''"

abbreviation LVM_Aggregate :: LVM_Type where
  "LVM_Aggregate \<equiv> LVM ''Aggregate''"

abbreviation LVM_IndexAggregate :: LVM_Type where
  "LVM_IndexAggregate \<equiv> LVM ''IndexAggregate''"

abbreviation LVM_Aggregate_COUNT :: LVM_Type where
  "LVM_Aggregate_COUNT \<equiv> LVM ''Aggregate_COUNT''"

abbreviation LVM_Aggregate_Return :: LVM_Type where
  "LVM_Aggregate_Return \<equiv> LVM ''Aggregate_Return''"

abbreviation LVM_Filter :: LVM_Type where
  "LVM_Filter \<equiv> LVM ''Filter''"

abbreviation LVM_Project :: LVM_Type where
  "LVM_Project \<equiv> LVM ''Project''"

abbreviation LVM_ReturnValue :: LVM_Type where
  "LVM_ReturnValue \<equiv> LVM ''ReturnValue''"

abbreviation LVM_Sequence :: LVM_Type where
  "LVM_Sequence \<equiv> LVM ''Sequence''"

abbreviation LVM_Parallel :: LVM_Type where
  "LVM_Parallel \<equiv> LVM ''Parallel''"

abbreviation LVM_Stop_Parallel :: LVM_Type where
  "LVM_Stop_Parallel \<equiv> LVM ''Stop_Parallel''"

abbreviation LVM_Loop :: LVM_Type where
  "LVM_Loop \<equiv> LVM ''Loop''"

abbreviation LVM_IncIterationNumber :: LVM_Type where
  "LVM_IncIterationNumber \<equiv> LVM ''IncIterationNumber''"

abbreviation LVM_ResetIterationNumber :: LVM_Type where
  "LVM_ResetIterationNumber \<equiv> LVM ''ResetIterationNumber''"

abbreviation LVM_LogRelationTimer :: LVM_Type where
  "LVM_LogRelationTimer \<equiv> LVM ''LogRelationTimer''"

abbreviation LVM_LogTimer :: LVM_Type where
  "LVM_LogTimer \<equiv> LVM ''LogTimer''"

abbreviation LVM_StopLogTimer :: LVM_Type where
  "LVM_StopLogTimer \<equiv> LVM ''StopLogTimer''"

abbreviation LVM_DebugInfo :: LVM_Type where
  "LVM_DebugInfo \<equiv> LVM ''DebugInfo''"

abbreviation LVM_Stratum :: LVM_Type where
  "LVM_Stratum \<equiv> LVM ''Stratum''"

abbreviation LVM_Create :: LVM_Type where
  "LVM_Create \<equiv> LVM ''Create''"

abbreviation LVM_Clear :: LVM_Type where
  "LVM_Clear \<equiv> LVM ''Clear''"

abbreviation LVM_Drop :: LVM_Type where
  "LVM_Drop \<equiv> LVM ''Drop''"

abbreviation LVM_LogSize :: LVM_Type where
  "LVM_LogSize \<equiv> LVM ''LogSize''"

abbreviation LVM_Load :: LVM_Type where
  "LVM_Load \<equiv> LVM ''Load''"

abbreviation LVM_Store :: LVM_Type where
  "LVM_Store \<equiv> LVM ''Store''"

abbreviation LVM_Fact :: LVM_Type where
  "LVM_Fact \<equiv> LVM ''Fact''"

abbreviation LVM_Query :: LVM_Type where
  "LVM_Query \<equiv> LVM ''Query''"

abbreviation LVM_Merge :: LVM_Type where
  "LVM_Merge \<equiv> LVM ''Merge''"

abbreviation LVM_Swap :: LVM_Type where
  "LVM_Swap \<equiv> LVM ''Swap''"

abbreviation LVM_Goto :: LVM_Type where
  "LVM_Goto \<equiv> LVM ''Goto''"

abbreviation LVM_Jmpnz :: LVM_Type where
  "LVM_Jmpnz \<equiv> LVM ''Jmpnz''"

abbreviation LVM_Jmpez :: LVM_Type where
  "LVM_Jmpez \<equiv> LVM ''Jmpez''"

abbreviation LVM_STOP :: LVM_Type where
  "LVM_STOP \<equiv> LVM ''STOP''"

abbreviation LVM_NOP :: LVM_Type where
  "LVM_NOP \<equiv> LVM ''NOP''"

abbreviation LVM_ITER_InitFullIndex :: LVM_Type where
  "LVM_ITER_InitFullIndex \<equiv> LVM ''ITER_InitFullIndex''"

abbreviation LVM_ITER_InitRangeIndex :: LVM_Type where
  "LVM_ITER_InitRangeIndex \<equiv> LVM ''ITER_InitRangeIndex''"

abbreviation LVM_ITER_InitRangeIndexOneArg :: LVM_Type where
  "LVM_ITER_InitRangeIndexOneArg \<equiv> LVM ''ITER_InitRangeIndexOneArg''"

abbreviation LVM_ITER_NotAtEnd :: LVM_Type where
  "LVM_ITER_NotAtEnd \<equiv> LVM ''ITER_NotAtEnd''"

abbreviation LVM_ITER_Select :: LVM_Type where
  "LVM_ITER_Select \<equiv> LVM ''ITER_Select''"

abbreviation LVM_ITER_Inc :: LVM_Type where
  "LVM_ITER_Inc \<equiv> LVM ''ITER_Inc''"

text \<open>
  The stream is a vector of \<^verbatim>\<open>RamDomain\<close>. A word of the model records what
  \<^verbatim>\<open>push_back\<close> was given: an opcode, a domain value, a \<^verbatim>\<open>size_t\<close> operand (an id,
  a count, a slot) or a \<^verbatim>\<open>size_t\<close> stream address (the value of a label, a loop
  start, the exit address).
\<close>

datatype lvm_word = Op LVM_Type | Dom RamDomain | Size nat | Addr nat

subsection \<open>The RAM tree\<close>

text \<open>
  The node classes are declared outside the sources at hand; a constructor carries what
  the visitor of the class reads through its getters. \<open>FunctorOp_UNDEFINED\<close> and
  \<open>BinaryConstraintOp_UNDEFINED\<close> stand for the enumerators that the two
  \<^verbatim>\<open>switch\<close> statements leave to their \<^verbatim>\<open>default\<close> label.
\<close>

datatype FunctorOp =
    FunctorOp_ORD | FunctorOp_STRLEN | FunctorOp_NEG | FunctorOp_BNOT | FunctorOp_LNOT
  | FunctorOp_TONUMBER | FunctorOp_TOSTRING
  | FunctorOp_ADD | FunctorOp_SUB | FunctorOp_MUL | FunctorOp_DIV | FunctorOp_EXP
  | FunctorOp_MOD | FunctorOp_BAND | FunctorOp_BOR | FunctorOp_BXOR | FunctorOp_LAND
  | FunctorOp_LOR | FunctorOp_MAX | FunctorOp_MIN | FunctorOp_CAT | FunctorOp_SUBSTR
  | FunctorOp_UNDEFINED

datatype BinaryConstraintOp =
    BinaryConstraintOp_EQ | BinaryConstraintOp_NE | BinaryConstraintOp_LT
  | BinaryConstraintOp_LE | BinaryConstraintOp_GT | BinaryConstraintOp_GE
  | BinaryConstraintOp_MATCH | BinaryConstraintOp_NOT_MATCH
  | BinaryConstraintOp_CONTAINS | BinaryConstraintOp_NOT_CONTAINS
  | BinaryConstraintOp_UNDEFINED

datatype AggregateFunction = souffle_MAX | souffle_MIN | souffle_COUNT | souffle_SUM

datatype RamExpression =
    RamNumber RamDomain
  | RamTupleElement nat nat
  | RamAutoIncrement
  | RamIntrinsicOperator FunctorOp "RamExpression list"
  | RamUserDefinedOperator string string "RamExpression list"
  | RamPackRecord "RamExpression list"
  | RamSubroutineArgument nat
  | RamUndefValue

text \<open>
  The numbers of \<open>RamExistenceCheck\<close> and of the indexed operations are the answers of
  \<^verbatim>\<open>isa->getSearchSignature(&node)\<close> for the node.
\<close>

datatype RamCondition =
    RamTrue
  | RamFalse
  | RamConjunction RamCondition RamCondition
  | RamNegation RamCondition
  | RamEmptinessCheck RamRelation
  | RamExistenceCheck RamRelation "RamExpression list" SearchSignature
  | RamProvenanceExistenceCheck RamRelation "RamExpression list" SearchSignature
  | RamConstraint BinaryConstraintOp RamExpression RamExpression

text \<open>
  Operations. The tuple operations carry, in this order: the relation, the tuple id,
  the profile text, (the range pattern and the search signature), (the aggregate's
  target expression), (the condition), and the nested operation.
\<close>

datatype RamOperation =
    RamScan RamRelation nat string RamOperation
  | RamChoice RamRelation nat string RamCondition RamOperation
  | RamIndexScan RamRelation nat string "RamExpression list" SearchSignature RamOperation
  | RamIndexChoice RamRelation nat string "RamExpression list" SearchSignature
      RamCondition RamOperation
  | RamUnpackRecord RamExpression nat nat string RamOperation
  | RamAggregate AggregateFunction RamRelation nat string RamExpression RamCondition
      RamOperation
  | RamIndexAggregate AggregateFunction RamRelation nat string "RamExpression list"
      SearchSignature RamExpression RamCondition RamOperation
  | RamBreak RamCondition RamOperation
  | RamFilter RamCondition string RamOperation
  | RamProject RamRelation "RamExpression list"
  | RamSubroutineReturnValue "RamExpression list"

type_synonym IODirectives = "(string \<times> string) list"

text \<open>
  Statements. \<open>RamUnknownNode\<close> stands for a node of a class that has no visitor of
  its own in the generator and reaches \<^verbatim>\<open>visitNode\<close>.
\<close>

datatype RamStatement =
    RamSequence "RamStatement list"
  | RamParallel "RamStatement list"
  | RamLoop RamStatement
  | RamExit RamCondition
  | RamLogRelationTimer string RamRelation RamStatement
  | RamLogTimer string RamStatement
  | RamDebugInfo string RamStatement
  | RamStratum RamStatement
  | RamCreate RamRelation
  | RamClear RamRelation
  | RamDrop RamRelation
  | RamLogSize RamRelation string
  | RamLoad RamRelation "IODirectives list"
  | RamStore RamRelation "IODirectives list"
  | RamFact RamRelation "RamExpression list"
  | RamQuery RamOperation
  | RamMerge RamRelation RamRelation
  | RamSwap RamRelation RamRelation
  | RamUnknownNode

fun isRamUndefValue :: "RamExpression \<Rightarrow> bool" where
  "isRamUndefValue RamUndefValue = True"
| "isRamUndefValue _ = False"

fun isRamTrue :: "RamCondition \<Rightarrow> bool" where
  "isRamTrue RamTrue = True"
| "isRamTrue _ = False"

subsection \<open>The state of the generator\<close>

text \<open>
  The members of \<^verbatim>\<open>LVMGenerator\<close>. \<open>code\<close> and \<open>IODirectives\<close> are the stream and the
  I/O sidetable of the \<^verbatim>\<open>LVMCode\<close> object. The symbol table is shared by reference
  with the caller.

  Modelled from the spec: \<^verbatim>\<open>SymbolTable\<close> is not among the sources. The spec calls it
  "an interner from string to integer id": \<open>lookup\<close> returns the position of a known
  string and appends an unknown one.
\<close>

definition lookup :: "string \<Rightarrow> string list \<Rightarrow> nat \<times> string list" where
  "lookup str tbl =
     (length (takeWhile (\<lambda>x. x \<noteq> str) tbl), if str \<in> set tbl then tbl else tbl @ [str])"

record LVMGenerator =
  symbolTable :: "string list"
  code :: "lvm_word list"
  IODirectives :: "IODirectives list list"
  currentAddressLabel :: nat
  addressMap :: "nat list"
  iteratorIndex :: nat
  timerIndex :: nat
  relationEncoder :: RelationEncoder

datatype lvm_error =
    UnsupportedOperator
  | CompilationError
  | UnknownNodeType
  | NoIndexForSignature
  | IndexOutOfRange
  | SignedOverflow

text \<open>Sequencing of steps that may abort.\<close>

definition bindE :: "lvm_error + 'a \<Rightarrow> ('a \<Rightarrow> lvm_error + 'b) \<Rightarrow> lvm_error + 'b" where
  "bindE r f = (case r of Inl e \<Rightarrow> Inl e | Inr x \<Rightarrow> f x)"

text \<open>\<open>emit ws\<close> is a run of \<^verbatim>\<open>code->push_back\<close> calls, one for each word of \<open>ws\<close>.\<close>

definition emit :: "lvm_word list \<Rightarrow> LVMGenerator \<Rightarrow> LVMGenerator" where
  "emit ws s = s\<lparr>code := code s @ ws\<rparr>"

definition cleanUp :: "LVMGenerator \<Rightarrow> LVMGenerator" where
  "cleanUp s = s\<lparr>code := [], IODirectives := [], currentAddressLabel := 0,
                  iteratorIndex := 0, timerIndex := 0\<rparr>"

definition getNewAddressLabel :: "LVMGenerator \<Rightarrow> nat \<times> LVMGenerator" where
  "getNewAddressLabel s =
     (currentAddressLabel s, s\<lparr>currentAddressLabel := currentAddressLabel s + 1\<rparr>)"

definition getNewIterator :: "LVMGenerator \<Rightarrow> nat \<times> LVMGenerator" where
  "getNewIterator s = (iteratorIndex s, s\<lparr>iteratorIndex := iteratorIndex s + 1\<rparr>)"

definition getNewTimer :: "LVMGenerator \<Rightarrow> nat \<times> LVMGenerator" where
  "getNewTimer s = (timerIndex s, s\<lparr>timerIndex := timerIndex s + 1\<rparr>)"

definition lookupAddress :: "LVMGenerator \<Rightarrow> nat \<Rightarrow> nat" where
  "lookupAddress s addressLabel =
     (if addressLabel < length (addressMap s) then addressMap s ! addressLabel else 0)"

text \<open>\<^verbatim>\<open>resize\<close> of a vector of \<^verbatim>\<open>size_t\<close>: new elements are zero.\<close>

definition resize :: "nat list \<Rightarrow> nat \<Rightarrow> nat list" where
  "resize v n = take n v @ replicate (n - length v) 0"

definition setAddress :: "nat \<Rightarrow> nat \<Rightarrow> LVMGenerator \<Rightarrow> LVMGenerator" where
  "setAddress addressLabel v s =
     (let m = (if addressLabel \<ge> length (addressMap s)
               then resize (addressMap s) (addressLabel + 1) else addressMap s)
      in s\<lparr>addressMap := m[addressLabel := v]\<rparr>)"

text \<open>\<^verbatim>\<open>relationEncoder.encodeRelation(rel)\<close> and \<^verbatim>\<open>symbolTable.lookup(str)\<close> on the members.\<close>

definition encodeRel :: "RamRelation \<Rightarrow> LVMGenerator \<Rightarrow> nat \<times> LVMGenerator" where
  "encodeRel rel s =
     (fst (encodeRelation rel (relationEncoder s)),
      s\<lparr>relationEncoder := snd (encodeRelation rel (relationEncoder s))\<rparr>)"

definition symLookup :: "string \<Rightarrow> LVMGenerator \<Rightarrow> nat \<times> LVMGenerator" where
  "symLookup str s =
     (fst (lookup str (symbolTable s)), s\<lparr>symbolTable := snd (lookup str (symbolTable s))\<rparr>)"


subsection \<open>Expressions\<close>

text \<open>
  \<open>visitExpressions\<close> is the loop over all arguments in order, \<open>visitExpressionsRev\<close>
  the loop \<^verbatim>\<open>for (i = n; i-- > 0;)\<close> from the last argument to the first, and
  \<open>visitPrefix n\<close> the calls \<^verbatim>\<open>visit(args[0])\<close> ... \<^verbatim>\<open>visit(args[n-1])\<close> of the operators
  of fixed arity; an argument that the vector does not have aborts.
\<close>

fun visitExpression :: "RamExpression \<Rightarrow> nat \<Rightarrow> LVMGenerator \<Rightarrow> lvm_error + LVMGenerator"
  and visitExpressions ::
    "RamExpression list \<Rightarrow> nat \<Rightarrow> LVMGenerator \<Rightarrow> lvm_error + LVMGenerator"
  and visitExpressionsRev ::
    "RamExpression list \<Rightarrow> nat \<Rightarrow> LVMGenerator \<Rightarrow> lvm_error + LVMGenerator"
  and visitPrefix ::
    "nat \<Rightarrow> RamExpression list \<Rightarrow> nat \<Rightarrow> LVMGenerator \<Rightarrow> lvm_error + LVMGenerator"
where
  "visitExpression (RamNumber c) exitAddress s = Inr (emit [Op LVM_Number, Dom c] s)"
| "visitExpression (RamTupleElement tupleId element) exitAddress s =
     Inr (emit [Op LVM_TupleElement, Size tupleId, Size element] s)"
| "visitExpression RamAutoIncrement exitAddress s = Inr (emit [Op LVM_AutoIncrement] s)"
| "visitExpression (RamIntrinsicOperator op args) exitAddress s =
     (case op of
        FunctorOp_ORD \<Rightarrow>
          bindE (visitPrefix (Suc 0) args exitAddress s) (\<lambda>s. Inr (emit [Op LVM_OP_ORD] s))
      | FunctorOp_STRLEN \<Rightarrow>
          bindE (visitPrefix (Suc 0) args exitAddress s) (\<lambda>s. Inr (emit [Op LVM_OP_STRLEN] s))
      | FunctorOp_NEG \<Rightarrow>
          bindE (visitPrefix (Suc 0) args exitAddress s) (\<lambda>s. Inr (emit [Op LVM_OP_NEG] s))
      | FunctorOp_BNOT \<Rightarrow>
          bindE (visitPrefix (Suc 0) args exitAddress s) (\<lambda>s. Inr (emit [Op LVM_OP_BNOT] s))
      | FunctorOp_LNOT \<Rightarrow>
          bindE (visitPrefix (Suc 0) args exitAddress s) (\<lambda>s. Inr (emit [Op LVM_OP_LNOT] s))
      | FunctorOp_TONUMBER \<Rightarrow>
          bindE (visitPrefix (Suc 0) args exitAddress s)
            (\<lambda>s. Inr (emit [Op LVM_OP_TONUMBER] s))
      | FunctorOp_TOSTRING \<Rightarrow>
          bindE (visitPrefix (Suc 0) args exitAddress s)
            (\<lambda>s. Inr (emit [Op LVM_OP_TOSTRING] s))
      | FunctorOp_ADD \<Rightarrow>
          bindE (visitPrefix (Suc (Suc 0)) args exitAddress s)
            (\<lambda>s. Inr (emit [Op LVM_OP_ADD] s))
      | FunctorOp_SUB \<Rightarrow>
          bindE (visitPrefix (Suc (Suc 0)) args exitAddress s)
            (\<lambda>s. Inr (emit [Op LVM_OP_SUB] s))
      | FunctorOp_MUL \<Rightarrow>
          bindE (visitPrefix (Suc (Suc 0)) args exitAddress s)
            (\<lambda>s. Inr (emit [Op LVM_OP_MUL] s))
      | FunctorOp_DIV \<Rightarrow>
          bindE (visitPrefix (Suc (Suc 0)) args exitAddress s)
            (\<lambda>s. Inr (emit [Op LVM_OP_DIV] s))
      | FunctorOp_EXP \<Rightarrow>
          bindE (visitPrefix (Suc (Suc 0)) args exitAddress s)
            (\<lambda>s. Inr (emit [Op LVM_OP_EXP] s))
      | FunctorOp_MOD \<Rightarrow>
          bindE (visitPrefix (Suc (Suc 0)) args exitAddress s)
            (\<lambda>s. Inr (emit [Op LVM_OP_MOD] s))
      | FunctorOp_BAND \<Rightarrow>
          bindE (visitPrefix (Suc (Suc 0)) args exitAddress s)
            (\<lambda>s. Inr (emit [Op LVM_OP_BAND] s))
      | FunctorOp_BOR \<Rightarrow>
          bindE (visitPrefix (Suc (Suc 0)) args exitAddress s)
            (\<lambda>s. Inr (emit [Op LVM_OP_BOR] s))
      | FunctorOp_BXOR \<Rightarrow>
          bindE (visitPrefix (Suc (Suc 0)) args exitAddress s)
            (\<lambda>s. Inr (emit [Op LVM_OP_BXOR] s))
      | FunctorOp_LAND \<Rightarrow>
          bindE (visitPrefix (Suc (Suc 0)) args exitAddress s)
            (\<lambda>s. Inr (emit [Op LVM_OP_LAND] s))
      | FunctorOp_LOR \<Rightarrow>
          bindE (visitPrefix (Suc (Suc 0)) args exitAddress s)
            (\<lambda>s. Inr (emit [Op LVM_OP_LOR] s))
      | FunctorOp_MAX \<Rightarrow>
          bindE (visitExpressions args exitAddress s)
            (\<lambda>s. Inr (emit [Op LVM_OP_MAX, Size (length args)] s))
      | FunctorOp_MIN \<Rightarrow>
          bindE (visitExpressions args exitAddress s)
            (\<lambda>s. Inr (emit [Op LVM_OP_MIN, Size (length args)] s))
      | FunctorOp_CAT \<Rightarrow>
          bindE (visitExpressionsRev args exitAddress s)
            (\<lambda>s. Inr (emit [Op LVM_OP_CAT, Size (length args)] s))
      | FunctorOp_SUBSTR \<Rightarrow>
          bindE (visitPrefix (Suc (Suc (Suc 0))) args exitAddress s)
            (\<lambda>s. Inr (emit [Op LVM_OP_SUBSTR] s))
      | FunctorOp_UNDEFINED \<Rightarrow> Inl UnsupportedOperator)"
| "visitExpression (RamUserDefinedOperator name type args) exitAddress s =
     bindE (visitExpressionsRev args exitAddress s)
       (\<lambda>s. let s = emit [Op LVM_UserDefinedOperator] s;
                 (nameId, s) = symLookup name s;
                 s = emit [Size nameId] s;
                 (typeId, s) = symLookup type s
             in Inr (emit [Size typeId, Size (length args)] s))"
| "visitExpression (RamPackRecord values) exitAddress s =
     bindE (visitExpressions values exitAddress s)
       (\<lambda>s. Inr (emit [Op LVM_PackRecord, Size (length values)] s))"
| "visitExpression (RamSubroutineArgument arg) exitAddress s =
     Inr (emit [Op LVM_Argument, Size arg] s)"
| "visitExpression RamUndefValue exitAddress s = Inl CompilationError"
| "visitExpressions [] exitAddress s = Inr s"
| "visitExpressions (arg # args) exitAddress s =
     bindE (visitExpression arg exitAddress s) (\<lambda>s. visitExpressions args exitAddress s)"
| "visitExpressionsRev [] exitAddress s = Inr s"
| "visitExpressionsRev (arg # args) exitAddress s =
     bindE (visitExpressionsRev args exitAddress s) (\<lambda>s. visitExpression arg exitAddress s)"
| "visitPrefix 0 args exitAddress s = Inr s"
| "visitPrefix (Suc n) [] exitAddress s = Inl IndexOutOfRange"
| "visitPrefix (Suc n) (arg # args) exitAddress s =
     bindE (visitExpression arg exitAddress s) (\<lambda>s. visitPrefix n args exitAddress s)"

subsection \<open>Patterns, type masks and index positions\<close>

text \<open>
  The loop \<^verbatim>\<open>for (size_t i = n; i-- > 0;)\<close> of the existence check over the value
  pattern: a defined value is emitted and marked in the type mask, and the two flags
  record whether a defined and an undefined value were seen. The loop state is the
  generator, \<^verbatim>\<open>typeMask\<close>, \<^verbatim>\<open>emptinessCheck\<close> and \<^verbatim>\<open>fullExistenceCheck\<close>. The first
  argument counts down; the index of the body is its predecessor. Reading
  \<^verbatim>\<open>values[i]\<close> outside the vector aborts.
\<close>

type_synonym cint = "32 word"

fun existenceLoop ::
  "RamExpression list \<Rightarrow> nat \<Rightarrow> nat \<Rightarrow> LVMGenerator \<times> cint list \<times> bool \<times> bool \<Rightarrow>
   lvm_error + (LVMGenerator \<times> cint list \<times> bool \<times> bool)" where
  "existenceLoop values exitAddress 0 st = Inr st"
| "existenceLoop values exitAddress (Suc i) (s, typeMask, emptinessCheck, fullExistenceCheck) =
     (if i < length values then
        (if \<not> isRamUndefValue (values ! i) then
           bindE (visitExpression (values ! i) exitAddress s)
             (\<lambda>s. existenceLoop values exitAddress i
                     (s, typeMask[i := 1], False, fullExistenceCheck))
         else existenceLoop values exitAddress i (s, typeMask, emptinessCheck, False))
      else Inl IndexOutOfRange)"

text \<open>
  The same loop without the second flag, as the provenance existence check and the
  indexed operations have it; the flag is \<^verbatim>\<open>emptinessCheck\<close> or \<^verbatim>\<open>fullIndexSearch\<close>.
\<close>

fun patternLoop ::
  "RamExpression list \<Rightarrow> nat \<Rightarrow> nat \<Rightarrow> LVMGenerator \<times> cint list \<times> bool \<Rightarrow>
   lvm_error + (LVMGenerator \<times> cint list \<times> bool)" where
  "patternLoop values exitAddress 0 st = Inr st"
| "patternLoop values exitAddress (Suc i) (s, typeMask, flag) =
     (if i < length values then
        (if \<not> isRamUndefValue (values ! i) then
           bindE (visitExpression (values ! i) exitAddress s)
             (\<lambda>s. patternLoop values exitAddress i (s, typeMask[i := 1], False))
         else patternLoop values exitAddress i (s, typeMask, flag))
      else Inl IndexOutOfRange)"

text \<open>
  The expression \<^verbatim>\<open>(1 << arity) - 1\<close> of \<^verbatim>\<open>getIndexPos\<close>. Both literals are of type
  \<^verbatim>\<open>int\<close>, so the source evaluates it in 32-bit signed arithmetic and converts the
  result to a signature. Up to arity 30 the value is \<open>2 ^ arity - 1\<close>. From arity 31 on
  the shift or the subtraction leaves the range of \<^verbatim>\<open>int\<close>, and the language defines no
  result: the model stops there with \<open>SignedOverflow\<close>.
\<close>

definition fullOrderSignature :: "nat \<Rightarrow> lvm_error + SearchSignature" where
  "fullOrderSignature arity =
     (if arity < 31 then Inr (nat (sint (push_bit arity (1 :: 32 word) - 1)))
      else Inl SignedOverflow)"

text \<open>
  \<^verbatim>\<open>getIndexPos\<close>: a zero signature becomes \<^verbatim>\<open>(1 << arity) - 1\<close>; the order set of the
  relation gives the position, and compilation aborts when it has none.
\<close>

definition getIndexPos :: "RamRelation \<Rightarrow> SearchSignature \<Rightarrow> lvm_error + nat" where
  "getIndexPos rel sig =
     (let orderSet = getIndexes rel in
      bindE (if sig = 0 then fullOrderSignature (getArity rel) else Inr sig)
        (\<lambda>signature.
           case getLexOrderNum orderSet signature of
             None \<Rightarrow> Inl NoIndexForSignature
           | Some i \<Rightarrow> Inr i))"

text \<open>
  The inner loop over \<open>j\<close> of the two emit functions: the bits of mask word \<open>i\<close>. The
  last but one argument is the number of iterations left, \<^verbatim>\<open>RAM_DOMAIN_SIZE - j\<close>.
\<close>

definition numOfTypeMasks :: "nat \<Rightarrow> nat" where
  "numOfTypeMasks arity =
     arity div RAM_DOMAIN_SIZE + (if arity mod RAM_DOMAIN_SIZE \<noteq> 0 then 1 else 0)"

fun typesLoop :: "nat \<Rightarrow> cint list \<Rightarrow> nat \<Rightarrow> nat \<Rightarrow> nat \<Rightarrow> RamDomain \<Rightarrow> RamDomain" where
  "typesLoop arity typeMask i j 0 types = types"
| "typesLoop arity typeMask i j (Suc n) types =
     (let projectedIndex = i * RAM_DOMAIN_SIZE + j in
      if projectedIndex \<ge> arity then types
      else typesLoop arity typeMask i (j + 1) n
             (types OR push_bit j (typeMask ! projectedIndex)))"

definition typeMaskWords :: "nat \<Rightarrow> cint list \<Rightarrow> lvm_word list" where
  "typeMaskWords arity typeMask =
     map (\<lambda>i. Dom (typesLoop arity typeMask i 0 RAM_DOMAIN_SIZE 0))
       [0 ..< numOfTypeMasks arity]"

definition emitExistenceCheckInst ::
  "nat \<Rightarrow> nat \<Rightarrow> nat \<Rightarrow> cint list \<Rightarrow> LVMGenerator \<Rightarrow> LVMGenerator" where
  "emitExistenceCheckInst arity relId indexPos typeMask s =
     (let s = (if numOfTypeMasks arity = 1 then emit [Op LVM_ExistenceCheckOneArg] s
               else emit [Op LVM_ExistenceCheck] s);
          s = emit [Size relId, Size indexPos] s
      in emit (typeMaskWords arity typeMask) s)"

definition emitRangeIndexInst ::
  "nat \<Rightarrow> nat \<Rightarrow> nat \<Rightarrow> nat \<Rightarrow> cint list \<Rightarrow> LVMGenerator \<Rightarrow> LVMGenerator" where
  "emitRangeIndexInst arity relId indexPos counterLabel typeMask s =
     (let s = (if numOfTypeMasks arity = 1 then emit [Op LVM_ITER_InitRangeIndexOneArg] s
               else emit [Op LVM_ITER_InitRangeIndex] s);
          s = emit [Size counterLabel, Size relId, Size indexPos] s
      in emit (typeMaskWords arity typeMask) s)"

subsection \<open>Conditions\<close>

text \<open>
  In \<^verbatim>\<open>visitProvenanceExistenceCheck\<close> the loop starts from \<^verbatim>\<open>arity - 2\<close>, computed in
  \<^verbatim>\<open>size_t\<close>: below arity 2 the subtraction wraps around (64-bit \<^verbatim>\<open>size_t\<close>).
\<close>

definition size_t_sub :: "nat \<Rightarrow> nat \<Rightarrow> nat" where
  "size_t_sub a b = (if b \<le> a then a - b else a + 2 ^ 64 - b)"

fun visitCondition :: "RamCondition \<Rightarrow> nat \<Rightarrow> LVMGenerator \<Rightarrow> lvm_error + LVMGenerator"
where
  "visitCondition RamTrue exitAddress s = Inr (emit [Op LVM_True] s)"
| "visitCondition RamFalse exitAddress s = Inr (emit [Op LVM_False] s)"
| "visitCondition (RamConjunction lhs rhs) exitAddress s =
     bindE (visitCondition lhs exitAddress s)
       (\<lambda>s. bindE (visitCondition rhs exitAddress s)
          (\<lambda>s. Inr (emit [Op LVM_Conjunction] s)))"
| "visitCondition (RamNegation operand) exitAddress s =
     bindE (visitCondition operand exitAddress s) (\<lambda>s. Inr (emit [Op LVM_Negation] s))"
| "visitCondition (RamEmptinessCheck rel) exitAddress s =
     (let s = emit [Op LVM_EmptinessCheck] s;
          (relId, s) = encodeRel rel s
      in Inr (emit [Size relId] s))"
| "visitCondition (RamExistenceCheck rel values sig) exitAddress s =
     (let arity = getArity rel;
          (relId, s) = encodeRel rel s;
          typeMask = replicate arity 0
      in bindE (existenceLoop values exitAddress arity (s, typeMask, True, True))
           (\<lambda>(s, typeMask, emptinessCheck, fullExistenceCheck).
              if emptinessCheck = True then
                Inr (emit [Op LVM_EmptinessCheck, Size relId, Op LVM_Negation] s)
              else if fullExistenceCheck = True then
                Inr (emit [Op LVM_ContainCheck, Size relId] s)
              else
                bindE (getIndexPos rel sig)
                  (\<lambda>indexPos. Inr (emitExistenceCheckInst arity relId indexPos typeMask s))))"
| "visitCondition (RamProvenanceExistenceCheck rel values sig) exitAddress s =
     (let arity = getArity rel;
          (relId, s) = encodeRel rel s;
          typeMask = replicate arity 0
      in bindE (patternLoop values exitAddress (size_t_sub arity 2) (s, typeMask, True))
           (\<lambda>(s, typeMask, emptinessCheck).
              if emptinessCheck = True then
                Inr (emit [Op LVM_EmptinessCheck, Size relId, Op LVM_Negation] s)
              else
                bindE (getIndexPos rel sig)
                  (\<lambda>indexPos. Inr (emitExistenceCheckInst arity relId indexPos typeMask s))))"
| "visitCondition (RamConstraint op lhs rhs) exitAddress s =
     (let s = emit [Op LVM_Constraint] s in
      bindE (visitExpression lhs exitAddress s)
        (\<lambda>s. bindE (visitExpression rhs exitAddress s)
           (\<lambda>s. case op of
                   BinaryConstraintOp_EQ \<Rightarrow> Inr (emit [Op LVM_OP_EQ] s)
                 | BinaryConstraintOp_NE \<Rightarrow> Inr (emit [Op LVM_OP_NE] s)
                 | BinaryConstraintOp_LT \<Rightarrow> Inr (emit [Op LVM_OP_LT] s)
                 | BinaryConstraintOp_LE \<Rightarrow> Inr (emit [Op LVM_OP_LE] s)
                 | BinaryConstraintOp_GT \<Rightarrow> Inr (emit [Op LVM_OP_GT] s)
                 | BinaryConstraintOp_GE \<Rightarrow> Inr (emit [Op LVM_OP_GE] s)
                 | BinaryConstraintOp_MATCH \<Rightarrow> Inr (emit [Op LVM_OP_MATCH] s)
                 | BinaryConstraintOp_NOT_MATCH \<Rightarrow> Inr (emit [Op LVM_OP_NOT_MATCH] s)
                 | BinaryConstraintOp_CONTAINS \<Rightarrow> Inr (emit [Op LVM_OP_CONTAINS] s)
                 | BinaryConstraintOp_NOT_CONTAINS \<Rightarrow>
                     Inr (emit [Op LVM_OP_NOT_CONTAINS] s)
                 | BinaryConstraintOp_UNDEFINED \<Rightarrow> Inl UnsupportedOperator)))"


subsection \<open>Operations\<close>

text \<open>
  The three \<^verbatim>\<open>push_back\<close> calls of \<^verbatim>\<open>visitTupleOperation\<close>; the call of
  \<^verbatim>\<open>visitNestedOperation\<close> that follows them is the recursive call at each place where
  \<open>tupleOperationHeader\<close> is used.
\<close>

definition tupleOperationHeader :: "string \<Rightarrow> LVMGenerator \<Rightarrow> LVMGenerator" where
  "tupleOperationHeader profileText s =
     (let s = emit [Op LVM_Search] s;
          s = (if profileText = [] then emit [Dom 0] s else emit [Dom 1] s);
          (textId, s) = symLookup profileText s
      in emit [Size textId] s)"

text \<open>
  The block "Obtain the pattern for index" and "Init range index based on pattern",
  which \<^verbatim>\<open>visitIndexScan\<close>, \<^verbatim>\<open>visitIndexChoice\<close> and \<^verbatim>\<open>visitIndexAggregate\<close> have
  word for word.
\<close>

definition initRangeIndex ::
  "RamRelation \<Rightarrow> RamExpression list \<Rightarrow> SearchSignature \<Rightarrow> nat \<Rightarrow> nat \<Rightarrow> LVMGenerator \<Rightarrow>
   lvm_error + LVMGenerator" where
  "initRangeIndex rel patterns sig counterLabel exitAddress s =
     (let arity = getArity rel;
          (relId, s) = encodeRel rel s;
          typeMask = replicate arity 0
      in bindE (patternLoop patterns exitAddress arity (s, typeMask, True))
           (\<lambda>(s, typeMask, fullIndexSearch).
              if fullIndexSearch = True then
                Inr (emit [Op LVM_ITER_InitFullIndex, Size counterLabel, Size relId] s)
              else
                bindE (getIndexPos rel sig)
                  (\<lambda>indexPos.
                     Inr (emitRangeIndexInst arity relId indexPos counterLabel typeMask s))))"

text \<open>
  The part of \<^verbatim>\<open>visitAggregate\<close> from the test for the count shortcut to the jump over
  the nested operation, which \<^verbatim>\<open>visitIndexAggregate\<close> repeats word for word.
\<close>

definition aggregateInitValue :: "AggregateFunction \<Rightarrow> lvm_word list" where
  "aggregateInitValue f =
     (case f of
        souffle_MIN \<Rightarrow> [Op LVM_Number, Dom MAX_RAM_DOMAIN]
      | souffle_MAX \<Rightarrow> [Op LVM_Number, Dom MIN_RAM_DOMAIN]
      | souffle_COUNT \<Rightarrow> [Op LVM_Number, Dom 0]
      | souffle_SUM \<Rightarrow> [Op LVM_Number, Dom 0])"

definition aggregateStep :: "AggregateFunction \<Rightarrow> lvm_word list" where
  "aggregateStep f =
     (case f of
        souffle_MIN \<Rightarrow> [Op LVM_OP_MIN, Dom 2]
      | souffle_MAX \<Rightarrow> [Op LVM_OP_MAX, Dom 2]
      | souffle_COUNT \<Rightarrow> [Op LVM_Number, Dom 1, Op LVM_OP_ADD]
      | souffle_SUM \<Rightarrow> [Op LVM_OP_ADD])"

definition aggregateBody ::
  "AggregateFunction \<Rightarrow> RamCondition \<Rightarrow> RamExpression \<Rightarrow> nat \<Rightarrow> nat \<Rightarrow> nat \<Rightarrow> nat \<Rightarrow> nat \<Rightarrow>
   LVMGenerator \<Rightarrow> lvm_error + LVMGenerator" where
  "aggregateBody f condition expression tupleId counterLabel L1 L2 exitAddress s =
     bindE
       (if f = souffle_COUNT \<and> isRamTrue condition then
          Inr (emit [Op LVM_Aggregate_COUNT, Size counterLabel] s)
        else
          (let s = emit (aggregateInitValue f) s;
               address_L0 = length (code s);
               s = emit [Op LVM_ITER_NotAtEnd, Size counterLabel, Op LVM_Jmpez,
                         Addr (lookupAddress s L1), Op LVM_ITER_Select, Size counterLabel,
                         Size tupleId] s;
               (endOfLoop, s) = getNewAddressLabel s
           in bindE
                (if \<not> isRamTrue condition then
                   bindE (visitCondition condition exitAddress s)
                     (\<lambda>s. Inr (emit [Op LVM_Jmpez, Addr (lookupAddress s endOfLoop)] s))
                 else Inr s)
                (\<lambda>s. bindE
                   (if f \<noteq> souffle_COUNT then visitExpression expression exitAddress s
                    else Inr s)
                   (\<lambda>s. let s = emit (aggregateStep f) s;
                             s = setAddress endOfLoop (length (code s)) s
                         in Inr (emit [Op LVM_ITER_Inc, Size counterLabel, Op LVM_Goto,
                                       Addr address_L0] s)))))
       (\<lambda>s. let s = setAddress L1 (length (code s)) s;
                 s = emit [Op LVM_Aggregate_Return, Size tupleId] s
             in if f = souffle_MIN \<or> f = souffle_MAX then
                  Inr (emit [Op LVM_TupleElement, Size tupleId, Dom 0, Op LVM_Number,
                             Dom (if f = souffle_MIN then MAX_RAM_DOMAIN else MIN_RAM_DOMAIN),
                             Op LVM_OP_EQ, Op LVM_Jmpnz, Addr (lookupAddress s L2)] s)
                else Inr s)"

text \<open>
  The loop of \<^verbatim>\<open>visitSubroutineReturnValue\<close>, over the values from the last to the
  first: the argument list is the reversed vector, the state the generator and the
  string \<^verbatim>\<open>types\<close>.
\<close>

fun returnValueLoop ::
  "RamExpression list \<Rightarrow> nat \<Rightarrow> LVMGenerator \<times> string \<Rightarrow> lvm_error + (LVMGenerator \<times> string)"
where
  "returnValueLoop [] exitAddress st = Inr st"
| "returnValueLoop (e # es) exitAddress (s, types) =
     (if isRamUndefValue e then returnValueLoop es exitAddress (s, types @ ''_'')
      else bindE (visitExpression e exitAddress s)
             (\<lambda>s. returnValueLoop es exitAddress (s, types @ ''V'')))"

fun visitOperation :: "RamOperation \<Rightarrow> nat \<Rightarrow> LVMGenerator \<Rightarrow> lvm_error + LVMGenerator"
where
  "visitOperation (RamScan rel tupleId profileText nested) exitAddress s =
     (let s = emit [Op LVM_Scan] s;
          (counterLabel, s) = getNewIterator s;
          (L1, s) = getNewAddressLabel s;
          s = emit [Op LVM_ITER_InitFullIndex, Size counterLabel] s;
          (relId, s) = encodeRel rel s;
          s = emit [Size relId] s;
          address_L0 = length (code s);
          s = emit [Op LVM_ITER_NotAtEnd, Size counterLabel, Op LVM_Jmpez,
                    Addr (lookupAddress s L1), Op LVM_ITER_Select, Size counterLabel,
                    Size tupleId] s
      in bindE (visitOperation nested (lookupAddress s L1) (tupleOperationHeader profileText s))
           (\<lambda>s. let s = emit [Op LVM_ITER_Inc, Size counterLabel, Op LVM_Goto,
                               Addr address_L0] s
                 in Inr (setAddress L1 (length (code s)) s)))"
| "visitOperation (RamChoice rel tupleId profileText condition nested) exitAddress s =
     (let s = emit [Op LVM_Choice] s;
          (counterLabel, s) = getNewIterator s;
          (L1, s) = getNewAddressLabel s;
          (L2, s) = getNewAddressLabel s;
          s = emit [Op LVM_ITER_InitFullIndex, Size counterLabel] s;
          (relId, s) = encodeRel rel s;
          s = emit [Size relId] s;
          address_L0 = length (code s);
          s = emit [Op LVM_ITER_NotAtEnd, Size counterLabel, Op LVM_Jmpez,
                    Addr (lookupAddress s L2), Op LVM_ITER_Select, Size counterLabel,
                    Size tupleId] s
      in bindE (visitCondition condition exitAddress s)
           (\<lambda>s. let s = emit [Op LVM_Jmpnz, Addr (lookupAddress s L1), Op LVM_ITER_Inc,
                               Size counterLabel, Op LVM_Goto, Addr address_L0] s;
                     s = setAddress L1 (length (code s)) s
                 in bindE (visitOperation nested exitAddress (tupleOperationHeader profileText s))
                      (\<lambda>s. Inr (setAddress L2 (length (code s)) s))))"
| "visitOperation (RamIndexScan rel tupleId profileText patterns sig nested) exitAddress s =
     (let s = emit [Op LVM_IndexScan] s;
          (counterLabel, s) = getNewIterator s;
          (L1, s) = getNewAddressLabel s
      in bindE (initRangeIndex rel patterns sig counterLabel exitAddress s)
           (\<lambda>s. let address_L0 = length (code s);
                     s = emit [Op LVM_ITER_NotAtEnd, Size counterLabel, Op LVM_Jmpez,
                               Addr (lookupAddress s L1), Op LVM_ITER_Select,
                               Size counterLabel, Size tupleId] s
                 in bindE (visitOperation nested (lookupAddress s L1)
                             (tupleOperationHeader profileText s))
                      (\<lambda>s. let s = emit [Op LVM_ITER_Inc, Size counterLabel, Op LVM_Goto,
                                          Addr address_L0] s
                            in Inr (setAddress L1 (length (code s)) s))))"
| "visitOperation (RamIndexChoice rel tupleId profileText patterns sig condition nested)
     exitAddress s =
     (let s = emit [Op LVM_IndexChoice] s;
          (counterLabel, s) = getNewIterator s;
          (L1, s) = getNewAddressLabel s;
          (L2, s) = getNewAddressLabel s
      in bindE (initRangeIndex rel patterns sig counterLabel exitAddress s)
           (\<lambda>s. let address_L0 = length (code s);
                     s = emit [Op LVM_ITER_NotAtEnd, Size counterLabel, Op LVM_Jmpez,
                               Addr (lookupAddress s L2), Op LVM_ITER_Select,
                               Size counterLabel, Size tupleId] s
                 in bindE (visitCondition condition exitAddress s)
                      (\<lambda>s. let s = emit [Op LVM_Jmpnz, Addr (lookupAddress s L1),
                                          Op LVM_ITER_Inc, Size counterLabel, Op LVM_Goto,
                                          Addr address_L0] s;
                                s = setAddress L1 (length (code s)) s
                            in bindE (visitOperation nested exitAddress
                                        (tupleOperationHeader profileText s))
                                 (\<lambda>s. Inr (setAddress L2 (length (code s)) s)))))"
| "visitOperation (RamUnpackRecord expression arity tupleId profileText nested) exitAddress s =
     bindE (visitExpression expression exitAddress s)
       (\<lambda>s. let s = emit [Op LVM_UnpackRecord] s;
                 (L0, s) = getNewAddressLabel s;
                 s = emit [Size arity, Size tupleId, Addr (lookupAddress s L0)] s
             in bindE (visitOperation nested exitAddress (tupleOperationHeader profileText s))
                  (\<lambda>s. Inr (setAddress L0 (length (code s)) s)))"
| "visitOperation (RamAggregate f rel tupleId profileText expression condition nested)
     exitAddress s =
     (let s = emit [Op LVM_Aggregate] s;
          (counterLabel, s) = getNewIterator s;
          (L1, s) = getNewAddressLabel s;
          (L2, s) = getNewAddressLabel s;
          s = emit [Op LVM_ITER_InitFullIndex, Size counterLabel] s;
          (relId, s) = encodeRel rel s;
          s = emit [Size relId] s
      in bindE (aggregateBody f condition expression tupleId counterLabel L1 L2 exitAddress s)
           (\<lambda>s. bindE (visitOperation nested exitAddress (tupleOperationHeader profileText s))
              (\<lambda>s. Inr (setAddress L2 (length (code s)) s))))"
| "visitOperation
     (RamIndexAggregate f rel tupleId profileText patterns sig expression condition nested)
     exitAddress s =
     (let s = emit [Op LVM_IndexAggregate] s;
          (counterLabel, s) = getNewIterator s;
          (L1, s) = getNewAddressLabel s;
          (L2, s) = getNewAddressLabel s
      in bindE (initRangeIndex rel patterns sig counterLabel exitAddress s)
           (\<lambda>s. bindE
              (aggregateBody f condition expression tupleId counterLabel L1 L2 exitAddress s)
              (\<lambda>s. bindE (visitOperation nested exitAddress
                             (tupleOperationHeader profileText s))
                 (\<lambda>s. Inr (setAddress L2 (length (code s)) s)))))"
| "visitOperation (RamBreak condition nested) exitAddress s =
     bindE (visitCondition condition exitAddress s)
       (\<lambda>s. visitOperation nested exitAddress (emit [Op LVM_Jmpnz, Addr exitAddress] s))"
| "visitOperation (RamFilter condition profileText nested) exitAddress s =
     (let s = emit [Op LVM_Filter] s;
          (textId, s) = symLookup profileText s;
          s = emit [Size textId] s;
          (L0, s) = getNewAddressLabel s
      in bindE (visitCondition condition exitAddress s)
           (\<lambda>s. bindE (visitOperation nested exitAddress
                          (emit [Op LVM_Jmpez, Addr (lookupAddress s L0)] s))
              (\<lambda>s. Inr (setAddress L0 (length (code s)) s))))"
| "visitOperation (RamProject rel values) exitAddress s =
     (let arity = getArity rel in
      bindE (visitExpressionsRev values exitAddress s)
        (\<lambda>s. let s = emit [Op LVM_Project, Size arity] s;
                  (relId, s) = encodeRel rel s
              in Inr (emit [Size relId] s)))"
| "visitOperation (RamSubroutineReturnValue expressions) exitAddress s =
     bindE (returnValueLoop (rev expressions) exitAddress (s, []))
       (\<lambda>(s, types).
          let s = emit [Op LVM_ReturnValue, Size (length expressions)] s;
              (typesId, s) = symLookup types s
          in Inr (emit [Size typesId] s))"

subsection \<open>Statements\<close>

text \<open>
  The first loop of the part of \<^verbatim>\<open>visitParallel\<close> behind the unconditional
  \<^verbatim>\<open>return\<close>: one new label for each child, its current address emitted.
\<close>

fun parallelStartAddresses :: "nat \<Rightarrow> LVMGenerator \<Rightarrow> nat list \<times> LVMGenerator" where
  "parallelStartAddresses 0 s = ([], s)"
| "parallelStartAddresses (Suc n) s =
     (let (label, s) = getNewAddressLabel s;
          s = emit [Addr (lookupAddress s label)] s;
          (labels, s) = parallelStartAddresses n s
      in (label # labels, s))"

text \<open>The loop of \<^verbatim>\<open>visitFact\<close>: \<^verbatim>\<open>visit(values[i])\<close> for \<open>i\<close> from \<open>arity - 1\<close> down to 0.\<close>

fun visitValuesDown ::
  "RamExpression list \<Rightarrow> nat \<Rightarrow> nat \<Rightarrow> LVMGenerator \<Rightarrow> lvm_error + LVMGenerator" where
  "visitValuesDown values exitAddress 0 s = Inr s"
| "visitValuesDown values exitAddress (Suc i) s =
     (if i < length values then
        bindE (visitExpression (values ! i) exitAddress s)
          (\<lambda>s. visitValuesDown values exitAddress i s)
      else Inl IndexOutOfRange)"

text \<open>
  \<open>visitStatements\<close> is the loop over the children of a sequence or a parallel
  statement; \<open>visitParallelBranches\<close> is the second loop of the unreachable part of
  \<^verbatim>\<open>visitParallel\<close>, over the children and their start labels.
\<close>

fun visitStatement :: "RamStatement \<Rightarrow> nat \<Rightarrow> LVMGenerator \<Rightarrow> lvm_error + LVMGenerator"
  and visitStatements ::
    "RamStatement list \<Rightarrow> nat \<Rightarrow> LVMGenerator \<Rightarrow> lvm_error + LVMGenerator"
  and visitParallelBranches ::
    "nat list \<Rightarrow> RamStatement list \<Rightarrow> nat \<Rightarrow> LVMGenerator \<Rightarrow> lvm_error + LVMGenerator"
where
  "visitStatement (RamSequence statements) exitAddress s =
     visitStatements statements exitAddress (emit [Op LVM_Sequence] s)"
| "visitStatement (RamParallel stmts) exitAddress s =
     (let size = length stmts in
      if size = 1 \<or> True then visitStatements stmts exitAddress s
      else
        (let s = emit [Op LVM_Parallel, Size size] s;
             (endAddress, s) = getNewAddressLabel s;
             s = emit [Addr (lookupAddress s endAddress)] s;
             (startAddresses, s) = parallelStartAddresses size s
         in bindE (visitParallelBranches startAddresses stmts exitAddress s)
              (\<lambda>s. Inr (setAddress endAddress (length (code s)) s))))"
| "visitStatement (RamLoop body) exitAddress s =
     (let address_L0 = length (code s);
          s = emit [Op LVM_Loop] s;
          (L1, s) = getNewAddressLabel s;
          address_L1 = lookupAddress s L1
      in bindE (visitStatement body address_L1 s)
           (\<lambda>s. let s = emit [Op LVM_IncIterationNumber, Op LVM_Goto, Addr address_L0,
                               Op LVM_ResetIterationNumber] s
                 in Inr (setAddress L1 (length (code s)) s)))"
| "visitStatement (RamExit condition) exitAddress s =
     bindE (visitCondition condition exitAddress s)
       (\<lambda>s. Inr (emit [Op LVM_Jmpnz, Addr exitAddress] s))"
| "visitStatement (RamLogRelationTimer message rel statement) exitAddress s =
     (let s = emit [Op LVM_LogRelationTimer] s;
          (timerIndex, s) = getNewTimer s;
          (messageId, s) = symLookup message s;
          s = emit [Size messageId, Size timerIndex] s;
          (relId, s) = encodeRel rel s;
          s = emit [Size relId] s
      in bindE (visitStatement statement exitAddress s)
           (\<lambda>s. Inr (emit [Op LVM_StopLogTimer, Size timerIndex] s)))"
| "visitStatement (RamLogTimer message statement) exitAddress s =
     (let s = emit [Op LVM_LogTimer] s;
          (timerIndex, s) = getNewTimer s;
          (messageId, s) = symLookup message s;
          s = emit [Size messageId, Size timerIndex] s
      in bindE (visitStatement statement exitAddress s)
           (\<lambda>s. Inr (emit [Op LVM_StopLogTimer, Size timerIndex] s)))"
| "visitStatement (RamDebugInfo message statement) exitAddress s =
     (let s = emit [Op LVM_DebugInfo] s;
          (messageId, s) = symLookup message s
      in visitStatement statement exitAddress (emit [Size messageId] s))"
| "visitStatement (RamStratum body) exitAddress s =
     visitStatement body exitAddress (emit [Op LVM_Stratum] s)"
| "visitStatement (RamCreate rel) exitAddress s =
     (let s = emit [Op LVM_Create] s;
          (relId, s) = encodeRel rel s
      in Inr (emit [Size relId] s))"
| "visitStatement (RamClear rel) exitAddress s =
     (let s = emit [Op LVM_Clear] s;
          (relId, s) = encodeRel rel s
      in Inr (emit [Size relId] s))"
| "visitStatement (RamDrop rel) exitAddress s =
     (let s = emit [Op LVM_Drop] s;
          (relId, s) = encodeRel rel s
      in Inr (emit [Size relId] s))"
| "visitStatement (RamLogSize rel message) exitAddress s =
     (let s = emit [Op LVM_LogSize] s;
          (relId, s) = encodeRel rel s;
          s = emit [Size relId] s;
          (messageId, s) = symLookup message s
      in Inr (emit [Size messageId] s))"
| "visitStatement (RamLoad rel directives) exitAddress s =
     (let s = emit [Op LVM_Load] s;
          (relId, s) = encodeRel rel s;
          s = emit [Size relId] s;
          s = s\<lparr>IODirectives := IODirectives s @ [directives]\<rparr>
      in Inr (emit [Size (length (IODirectives s) - 1)] s))"
| "visitStatement (RamStore rel directives) exitAddress s =
     (let s = emit [Op LVM_Store] s;
          (relId, s) = encodeRel rel s;
          s = emit [Size relId] s;
          s = s\<lparr>IODirectives := IODirectives s @ [directives]\<rparr>
      in Inr (emit [Size (length (IODirectives s) - 1)] s))"
| "visitStatement (RamFact rel values) exitAddress s =
     (let arity = getArity rel in
      bindE (visitValuesDown values exitAddress arity s)
        (\<lambda>s. let s = emit [Op LVM_Fact] s;
                  (relId, s) = encodeRel rel s
              in Inr (emit [Size relId, Size arity] s)))"
| "visitStatement (RamQuery operation) exitAddress s =
     visitOperation operation exitAddress (emit [Op LVM_Query] s)"
| "visitStatement (RamMerge sourceRelation targetRelation) exitAddress s =
     (let s = emit [Op LVM_Merge] s;
          (sourceId, s) = encodeRel sourceRelation s;
          s = emit [Size sourceId] s;
          (targetId, s) = encodeRel targetRelation s
      in Inr (emit [Size targetId] s))"
| "visitStatement (RamSwap firstRelation secondRelation) exitAddress s =
     (let s = emit [Op LVM_Swap] s;
          (firstId, s) = encodeRel firstRelation s;
          s = emit [Size firstId] s;
          (secondId, s) = encodeRel secondRelation s
      in Inr (emit [Size secondId] s))"
| "visitStatement RamUnknownNode exitAddress s = Inl UnknownNodeType"
| "visitStatements [] exitAddress s = Inr s"
| "visitStatements (cur # rest) exitAddress s =
     bindE (visitStatement cur exitAddress s) (\<lambda>s. visitStatements rest exitAddress s)"
| "visitParallelBranches startAddresses [] exitAddress s = Inr s"
| "visitParallelBranches startAddresses (cur # rest) exitAddress s =
     (case startAddresses of
        [] \<Rightarrow> Inl IndexOutOfRange
      | start # starts \<Rightarrow>
          bindE (visitStatement cur exitAddress (setAddress start (length (code s)) s))
            (\<lambda>s. visitParallelBranches starts rest exitAddress
                    (emit [Op LVM_Stop_Parallel, Op LVM_NOP] s)))"

subsection \<open>The constructor\<close>

text \<open>
  The generator as its member initialisers leave it, the two traversals of the
  constructor with \<^verbatim>\<open>cleanUp\<close> between them, and the whole constructor.
\<close>

definition newGenerator :: "string list \<Rightarrow> RelationEncoder \<Rightarrow> LVMGenerator" where
  "newGenerator symtab enc =
     \<lparr>symbolTable = symtab, code = [], IODirectives = [], currentAddressLabel = 0,
      addressMap = [], iteratorIndex = 0, timerIndex = 0, relationEncoder = enc\<rparr>"

definition firstPass ::
  "string list \<Rightarrow> RamStatement \<Rightarrow> RelationEncoder \<Rightarrow> lvm_error + LVMGenerator" where
  "firstPass symtab entry enc = visitStatement entry 0 (newGenerator symtab enc)"

definition secondPass ::
  "string list \<Rightarrow> RamStatement \<Rightarrow> RelationEncoder \<Rightarrow> lvm_error + LVMGenerator" where
  "secondPass symtab entry enc =
     bindE (firstPass symtab entry enc) (\<lambda>s. visitStatement entry 0 (cleanUp s))"

definition LVMGenerator ::
  "string list \<Rightarrow> RamStatement \<Rightarrow> RelationEncoder \<Rightarrow> lvm_error + LVMGenerator" where
  "LVMGenerator symtab entry enc =
     bindE (secondPass symtab entry enc) (\<lambda>s. Inr (emit [Op LVM_STOP] s))"

subsection \<open>Comparing two runs of the generator\<close>

text \<open>
  Two generator states have the same shape when their streams have the same length and
  they agree on the I/O sidetable and on the three counters. Two results agree up to a
  relation when both are the same error, or both are values in the relation.
\<close>

definition sameShape :: "LVMGenerator \<Rightarrow> LVMGenerator \<Rightarrow> bool" where
  "sameShape s s' \<longleftrightarrow>
     length (code s) = length (code s') \<and> IODirectives s = IODirectives s' \<and>
     currentAddressLabel s = currentAddressLabel s' \<and> iteratorIndex s = iteratorIndex s' \<and>
     timerIndex s = timerIndex s'"

definition agree :: "('a \<Rightarrow> 'b \<Rightarrow> bool) \<Rightarrow> lvm_error + 'a \<Rightarrow> lvm_error + 'b \<Rightarrow> bool" where
  "agree R r r' \<longleftrightarrow>
     (case r of
        Inl e \<Rightarrow> r' = Inl e
      | Inr t \<Rightarrow> (case r' of Inl e' \<Rightarrow> False | Inr t' \<Rightarrow> R t t'))"


definition sameLoop :: "LVMGenerator \<times> 'a \<Rightarrow> LVMGenerator \<times> 'a \<Rightarrow> bool" where
  "sameLoop p p' \<longleftrightarrow> sameShape (fst p) (fst p') \<and> snd p = snd p'"

text \<open>
  A step only emits when it appends words to the stream and leaves the label table and
  the counters as they were. \<open>ensures P r\<close> says that a result, when it is not an
  error, satisfies \<open>P\<close>.
\<close>

definition onlyEmits :: "LVMGenerator \<Rightarrow> LVMGenerator \<Rightarrow> bool" where
  "onlyEmits s t \<longleftrightarrow>
     (\<exists>ws. code t = code s @ ws) \<and> addressMap t = addressMap s \<and>
     currentAddressLabel t = currentAddressLabel s \<and> iteratorIndex t = iteratorIndex s \<and>
     timerIndex t = timerIndex s \<and> IODirectives t = IODirectives s"

definition ensures :: "('a \<Rightarrow> bool) \<Rightarrow> lvm_error + 'a \<Rightarrow> bool" where
  "ensures P r \<longleftrightarrow> (case r of Inl e \<Rightarrow> True | Inr t \<Rightarrow> P t)"

subsection \<open>The descriptions of the specification\<close>

text \<open>
  The bound values of a pattern, in column order. \<open>markColumns values n typeMask\<close> is
  the type mask after the first \<open>n\<close> columns were looked at, and
  \<open>boundColumns values n arity\<close> says for each of the \<open>arity\<close> columns whether it is
  one of the first \<open>n\<close> and bound.
\<close>

definition definedValues :: "RamExpression list \<Rightarrow> RamExpression list" where
  "definedValues values = filter (\<lambda>v. \<not> isRamUndefValue v) values"

definition markColumns :: "RamExpression list \<Rightarrow> nat \<Rightarrow> cint list \<Rightarrow> cint list" where
  "markColumns values n typeMask =
     map (\<lambda>i. if i < n \<and> \<not> isRamUndefValue (values ! i) then 1 else typeMask ! i)
       [0 ..< length typeMask]"

definition boundColumns :: "RamExpression list \<Rightarrow> nat \<Rightarrow> nat \<Rightarrow> bool list" where
  "boundColumns values n arity =
     map (\<lambda>i. i < n \<and> \<not> isRamUndefValue (values ! i)) [0 ..< arity]"

text \<open>
  The type mask in the words of the specification: it has one word for every
  \<^verbatim>\<open>RAM_DOMAIN_SIZE\<close> columns, rounded up, and bit \<open>j\<close> of word \<open>i\<close> is set when
  column \<open>i * RAM_DOMAIN_SIZE + j\<close> exists and is bound.
\<close>

definition spec_typeMaskWord :: "bool list \<Rightarrow> nat \<Rightarrow> RamDomain" where
  "spec_typeMaskWord bound i =
     horner_sum of_bool 2
       (map (\<lambda>j. i * RAM_DOMAIN_SIZE + j < length bound \<and> bound ! (i * RAM_DOMAIN_SIZE + j))
          [0 ..< RAM_DOMAIN_SIZE])"

definition spec_typeMask :: "bool list \<Rightarrow> lvm_word list" where
  "spec_typeMask bound =
     map (\<lambda>i. Dom (spec_typeMaskWord bound i))
       [0 ..< (length bound + RAM_DOMAIN_SIZE - 1) div RAM_DOMAIN_SIZE]"

text \<open>
  The seeds of the accumulator in the words of the specification, and the words that
  compare the result of a minimum or maximum with its seed and jump to an address.
\<close>

definition aggregateSeed :: "AggregateFunction \<Rightarrow> RamDomain" where
  "aggregateSeed f =
     (case f of
        souffle_MIN \<Rightarrow> MAX_RAM_DOMAIN
      | souffle_MAX \<Rightarrow> MIN_RAM_DOMAIN
      | souffle_COUNT \<Rightarrow> 0
      | souffle_SUM \<Rightarrow> 0)"

definition aggregateGuard :: "AggregateFunction \<Rightarrow> nat \<Rightarrow> nat \<Rightarrow> lvm_word list" where
  "aggregateGuard f tupleId address =
     (if f = souffle_MIN \<or> f = souffle_MAX then
        [Op LVM_TupleElement, Size tupleId, Dom 0, Op LVM_Number, Dom (aggregateSeed f),
         Op LVM_OP_EQ, Op LVM_Jmpnz, Addr address]
      else [])"

subsection \<open>Example relations and programs\<close>

definition wideRel :: RamRelation where
  "wideRel = \<lparr>getName = ''wide'', getArity = 13, getRepresentation = BRIE,
              getAttributeTypeQualifiers = [], getIndexes = []\<rparr>"

definition infoRel :: RamRelation where
  "infoRel = \<lparr>getName = ''info'', getArity = 2, getRepresentation = INFO,
              getAttributeTypeQualifiers = [], getIndexes = []\<rparr>"

definition relR :: RamRelation where
  "relR = \<lparr>getName = ''R'', getArity = 2, getRepresentation = BTREE,
           getAttributeTypeQualifiers = [], getIndexes = [(1, 0), (3, 0), (2, 1)]\<rparr>"

definition relS :: RamRelation where
  "relS = \<lparr>getName = ''S'', getArity = 1, getRepresentation = DEFAULT,
           getAttributeTypeQualifiers = [], getIndexes = []\<rparr>"

definition loopExample :: RamStatement where
  "loopExample = RamLoop (RamExit RamTrue)"

definition countExample :: RamOperation where
  "countExample =
     RamAggregate souffle_COUNT relR 0 [] RamUndefValue RamTrue
       (RamProject relS [RamTupleElement 0 0])"

definition relP :: RamRelation where
  "relP = \<lparr>getName = ''P'', getArity = 3, getRepresentation = BTREE,
           getAttributeTypeQualifiers = [], getIndexes = [(1, 0)]\<rparr>"

definition minExample :: RamOperation where
  "minExample =
     RamAggregate souffle_MIN relR 0 [] (RamTupleElement 0 0) RamTrue
       (RamProject relS [RamTupleElement 0 0])"

definition countIndexExample :: RamOperation where
  "countIndexExample =
     RamIndexAggregate souffle_COUNT relR 0 [] [RamUndefValue, RamUndefValue] 0 RamUndefValue
       RamTrue (RamProject relS [RamTupleElement 0 0])"

section \<open>Properties of the relation encoder\<close>

lemma bindE_simps [simp]:
  "bindE (Inl e) f = Inl e"
  "bindE (Inr x) f = f x"
  by (simp_all add: bindE_def)

lemma encodeRelation_found:
  "map_of (relNameToIndex enc) (getName rel) = Some i \<Longrightarrow> encodeRelation rel enc = (i, enc)"
  by (simp add: encodeRelation_def)

lemma encodeRelation_new:
  "map_of (relNameToIndex enc) (getName rel) = None \<Longrightarrow>
   encodeRelation rel enc =
     (length (relNameToIndex enc),
      enc\<lparr>relNameToIndex := relNameToIndex enc @ [(getName rel, length (relNameToIndex enc))],
           relationMap := relationMap enc @ [createRelation rel]\<rparr>)"
  by (simp add: encodeRelation_def Let_def)

text \<open>The invariant holds of the encoder that the constructor builds, and is kept.\<close>

lemma encoderInv_encodeRelation:
  "encoderInv enc \<Longrightarrow> encoderInv (snd (encodeRelation rel enc))"
  by (cases "map_of (relNameToIndex enc) (getName rel)")
     (simp_all add: encodeRelation_found encodeRelation_new encoderInv_def)

lemma encoderInv_emptyEncoder: "encoderInv emptyEncoder"
  by (simp add: encoderInv_def emptyEncoder_def)

lemma encoderInv_fold:
  "encoderInv enc \<Longrightarrow> encoderInv (fold (\<lambda>rel enc. snd (encodeRelation rel enc)) rels enc)"
  by (induction rels arbitrary: enc) (simp_all add: encoderInv_encodeRelation)

lemma encoderInv_newRelationEncoder: "encoderInv (newRelationEncoder rels)"
  by (simp add: newRelationEncoder_def encoderInv_fold encoderInv_emptyEncoder)

text \<open>
  Claim C7 (storage-kind selection). A relation of arity above 12 gets a descriptor of
  the indirect class whatever representation \<open>r\<close> is declared. With an arity of at
  most 12 the declared representation decides the class of the descriptor and its
  index factory: \<open>DEFAULT\<close> and \<open>BTREE\<close> give a plain \<open>LVMRelation\<close>, \<open>BRIE\<close> an
  \<open>LVMRelation\<close> with the brie index factory, \<open>EQREL\<close> an \<open>LVMEqRelation\<close>.
\<close>

theorem createRelation_storage_kind:
  "(getArity rel > 12 \<longrightarrow>
      map_option relClass (createRelation (rel\<lparr>getRepresentation := r\<rparr>)) =
        Some LVMIndirectRelation) \<and>
   (getArity rel \<le> 12 \<longrightarrow>
      map_option (\<lambda>d. (relClass d, relFactory d)) (createRelation rel) =
        (case getRepresentation rel of
           DEFAULT \<Rightarrow> Some (LVMRelation, None)
         | BTREE \<Rightarrow> Some (LVMRelation, None)
         | BRIE \<Rightarrow> Some (LVMRelation, Some createBrieIndex)
         | EQREL \<Rightarrow> Some (LVMEqRelation, None)
         | INFO \<Rightarrow> None))"
  by (simp add: createRelation_def make_unique_def MAX_DIRECT_INDEX_SIZE_def
           split: RelationRepresentation.split)

theorem createRelation_storage_kind_witness:
  "map_option relClass (createRelation (wideRel\<lparr>getRepresentation := EQREL\<rparr>)) =
     Some LVMIndirectRelation \<and>
   map_option (\<lambda>d. (relClass d, relFactory d)) (createRelation (wideRel\<lparr>getArity := 12\<rparr>)) =
     Some (LVMRelation, Some createBrieIndex)"
  using createRelation_storage_kind [of wideRel EQREL]
    createRelation_storage_kind [of "wideRel\<lparr>getArity := 12\<rparr>"]
  by (simp add: wideRel_def)

text \<open>
  Claim C8 (encoder idempotence). Encoding a relation of the same name a second time
  returns the id of the first call and leaves the number of descriptors as it was. A
  call for a name that the encoder does not know yet appends exactly one descriptor,
  the one that \<open>createRelation\<close> makes, and returns its index in the vector of
  descriptors.
\<close>

theorem encodeRelation_idempotent:
  "getName rel' = getName rel \<longrightarrow>
     fst (encodeRelation rel' (snd (encodeRelation rel enc))) = fst (encodeRelation rel enc) \<and>
     getSize (snd (encodeRelation rel' (snd (encodeRelation rel enc)))) =
       getSize (snd (encodeRelation rel enc)) \<and>
     (encoderInv enc \<and> map_of (relNameToIndex enc) (getName rel) = None \<longrightarrow>
        getSize (snd (encodeRelation rel enc)) = getSize enc + 1 \<and>
        fst (encodeRelation rel enc) = getSize enc \<and>
        relationMap (snd (encodeRelation rel enc)) = relationMap enc @ [createRelation rel])"
proof (cases "map_of (relNameToIndex enc) (getName rel)")
  case None
  define enc1 where
    "enc1 = enc\<lparr>relNameToIndex := relNameToIndex enc @ [(getName rel, length (relNameToIndex enc))],
                 relationMap := relationMap enc @ [createRelation rel]\<rparr>"
  have e1: "encodeRelation rel enc = (length (relNameToIndex enc), enc1)"
    using None by (simp add: encodeRelation_new enc1_def)
  have e2: "encodeRelation rel' enc1 = (length (relNameToIndex enc), enc1)"
    if "getName rel' = getName rel"
  proof (rule encodeRelation_found)
    show "map_of (relNameToIndex enc1) (getName rel') = Some (length (relNameToIndex enc))"
      using None that by (simp add: enc1_def map_add_def)
  qed
  show ?thesis
    using e1 e2 by (simp add: getSize_def encoderInv_def enc1_def)
next
  case (Some i)
  then show ?thesis
    by (simp add: encodeRelation_found)
qed

theorem encodeRelation_idempotent_witness:
  "fst (encodeRelation (infoRel\<lparr>getArity := 5\<rparr>) (snd (encodeRelation infoRel emptyEncoder))) = 0 \<and>
   getSize (snd (encodeRelation (infoRel\<lparr>getArity := 5\<rparr>)
                  (snd (encodeRelation infoRel emptyEncoder)))) = 1 \<and>
   fst (encodeRelation infoRel emptyEncoder) = 0 \<and>
   relationMap (snd (encodeRelation infoRel emptyEncoder)) = [None]"
  using encodeRelation_idempotent [of "infoRel\<lparr>getArity := 5\<rparr>" infoRel emptyEncoder]
  by (simp add: infoRel_def emptyEncoder_def encoderInv_def getSize_def createRelation_def
        MAX_DIRECT_INDEX_SIZE_def)

text \<open>
  Claim C10 (null descriptor). For a relation of arity at most 12 whose declared
  representation is none of the four handled ones, \<open>createRelation\<close> returns the null
  pointer. When the encoder meets the name for the first time, it stores this null
  pointer under the id it returns and does not abort: decoding the id yields the null
  pointer.
\<close>

theorem createRelation_unhandled_representation:
  assumes "getArity rel \<le> 12"
    and "getRepresentation rel \<notin> {BTREE, BRIE, EQREL, DEFAULT}"
    and "encoderInv enc"
    and "map_of (relNameToIndex enc) (getName rel) = None"
  shows "createRelation rel = None \<and>
         decodeRelation (snd (encodeRelation rel enc)) (fst (encodeRelation rel enc)) = Some None"
proof -
  have c: "createRelation rel = None"
    using assms(1,2)
    by (cases "getRepresentation rel") (simp_all add: createRelation_def MAX_DIRECT_INDEX_SIZE_def)
  show ?thesis
    using assms(3,4) c
    by (simp add: encodeRelation_new decodeRelation_def encoderInv_def)
qed

theorem createRelation_unhandled_representation_witness:
  "createRelation infoRel = None \<and>
   fst (encodeRelation infoRel emptyEncoder) = 0 \<and>
   decodeRelation (snd (encodeRelation infoRel emptyEncoder)) 0 = Some None"
proof -
  have h1: "getArity infoRel \<le> 12"
    by (simp add: infoRel_def)
  have h2: "getRepresentation infoRel \<notin> {BTREE, BRIE, EQREL, DEFAULT}"
    by (simp add: infoRel_def)
  have h3: "encoderInv emptyEncoder"
    by (simp add: encoderInv_def emptyEncoder_def)
  have h4: "map_of (relNameToIndex emptyEncoder) (getName infoRel) = None"
    by (simp add: emptyEncoder_def)
  have h5: "fst (encodeRelation infoRel emptyEncoder) = 0"
    by (simp add: encodeRelation_def emptyEncoder_def Let_def)
  show ?thesis
    using createRelation_unhandled_representation [OF h1 h2 h3 h4] h5 by simp
qed

section \<open>The steps of the generator\<close>

text \<open>What each step of the generator does to each member.\<close>

lemma emit_fields [simp]:
  "code (emit ws s) = code s @ ws"
  "symbolTable (emit ws s) = symbolTable s"
  "IODirectives (emit ws s) = IODirectives s"
  "currentAddressLabel (emit ws s) = currentAddressLabel s"
  "addressMap (emit ws s) = addressMap s"
  "iteratorIndex (emit ws s) = iteratorIndex s"
  "timerIndex (emit ws s) = timerIndex s"
  "relationEncoder (emit ws s) = relationEncoder s"
  by (simp_all add: emit_def)

lemma setAddress_fields [simp]:
  "code (setAddress l v s) = code s"
  "symbolTable (setAddress l v s) = symbolTable s"
  "IODirectives (setAddress l v s) = IODirectives s"
  "currentAddressLabel (setAddress l v s) = currentAddressLabel s"
  "iteratorIndex (setAddress l v s) = iteratorIndex s"
  "timerIndex (setAddress l v s) = timerIndex s"
  "relationEncoder (setAddress l v s) = relationEncoder s"
  by (simp_all add: setAddress_def Let_def)

lemma getNewAddressLabel_fields [simp]:
  "fst (getNewAddressLabel s) = currentAddressLabel s"
  "code (snd (getNewAddressLabel s)) = code s"
  "symbolTable (snd (getNewAddressLabel s)) = symbolTable s"
  "IODirectives (snd (getNewAddressLabel s)) = IODirectives s"
  "currentAddressLabel (snd (getNewAddressLabel s)) = currentAddressLabel s + 1"
  "addressMap (snd (getNewAddressLabel s)) = addressMap s"
  "iteratorIndex (snd (getNewAddressLabel s)) = iteratorIndex s"
  "timerIndex (snd (getNewAddressLabel s)) = timerIndex s"
  "relationEncoder (snd (getNewAddressLabel s)) = relationEncoder s"
  by (simp_all add: getNewAddressLabel_def)

lemma getNewIterator_fields [simp]:
  "fst (getNewIterator s) = iteratorIndex s"
  "code (snd (getNewIterator s)) = code s"
  "symbolTable (snd (getNewIterator s)) = symbolTable s"
  "IODirectives (snd (getNewIterator s)) = IODirectives s"
  "currentAddressLabel (snd (getNewIterator s)) = currentAddressLabel s"
  "addressMap (snd (getNewIterator s)) = addressMap s"
  "iteratorIndex (snd (getNewIterator s)) = iteratorIndex s + 1"
  "timerIndex (snd (getNewIterator s)) = timerIndex s"
  "relationEncoder (snd (getNewIterator s)) = relationEncoder s"
  by (simp_all add: getNewIterator_def)

lemma getNewTimer_fields [simp]:
  "fst (getNewTimer s) = timerIndex s"
  "code (snd (getNewTimer s)) = code s"
  "symbolTable (snd (getNewTimer s)) = symbolTable s"
  "IODirectives (snd (getNewTimer s)) = IODirectives s"
  "currentAddressLabel (snd (getNewTimer s)) = currentAddressLabel s"
  "addressMap (snd (getNewTimer s)) = addressMap s"
  "iteratorIndex (snd (getNewTimer s)) = iteratorIndex s"
  "timerIndex (snd (getNewTimer s)) = timerIndex s + 1"
  "relationEncoder (snd (getNewTimer s)) = relationEncoder s"
  by (simp_all add: getNewTimer_def)

lemma encodeRel_fields [simp]:
  "fst (encodeRel rel s) = fst (encodeRelation rel (relationEncoder s))"
  "code (snd (encodeRel rel s)) = code s"
  "symbolTable (snd (encodeRel rel s)) = symbolTable s"
  "IODirectives (snd (encodeRel rel s)) = IODirectives s"
  "currentAddressLabel (snd (encodeRel rel s)) = currentAddressLabel s"
  "addressMap (snd (encodeRel rel s)) = addressMap s"
  "iteratorIndex (snd (encodeRel rel s)) = iteratorIndex s"
  "timerIndex (snd (encodeRel rel s)) = timerIndex s"
  "relationEncoder (snd (encodeRel rel s)) = snd (encodeRelation rel (relationEncoder s))"
  by (simp_all add: encodeRel_def)

lemma symLookup_fields [simp]:
  "fst (symLookup str s) = fst (lookup str (symbolTable s))"
  "code (snd (symLookup str s)) = code s"
  "symbolTable (snd (symLookup str s)) = snd (lookup str (symbolTable s))"
  "IODirectives (snd (symLookup str s)) = IODirectives s"
  "currentAddressLabel (snd (symLookup str s)) = currentAddressLabel s"
  "addressMap (snd (symLookup str s)) = addressMap s"
  "iteratorIndex (snd (symLookup str s)) = iteratorIndex s"
  "timerIndex (snd (symLookup str s)) = timerIndex s"
  "relationEncoder (snd (symLookup str s)) = relationEncoder s"
  by (simp_all add: symLookup_def)

lemma tupleOperationHeader_fields [simp]:
  "code (tupleOperationHeader p s) =
     code s @ [Op LVM_Search, Dom (if p = [] then 0 else 1), Size (fst (lookup p (symbolTable s)))]"
  "symbolTable (tupleOperationHeader p s) = snd (lookup p (symbolTable s))"
  "IODirectives (tupleOperationHeader p s) = IODirectives s"
  "currentAddressLabel (tupleOperationHeader p s) = currentAddressLabel s"
  "addressMap (tupleOperationHeader p s) = addressMap s"
  "iteratorIndex (tupleOperationHeader p s) = iteratorIndex s"
  "timerIndex (tupleOperationHeader p s) = timerIndex s"
  "relationEncoder (tupleOperationHeader p s) = relationEncoder s"
  by (simp_all add: tupleOperationHeader_def Let_def case_prod_beta)

lemma lookupAddress_setAddress:
  "lookupAddress (setAddress l v s) l' = (if l' = l then v else lookupAddress s l')"
  by (auto simp: lookupAddress_def setAddress_def resize_def Let_def nth_append)

lemmas generator_defs =
  emit_def getNewAddressLabel_def getNewIterator_def getNewTimer_def lookupAddress_def
  setAddress_def resize_def encodeRel_def symLookup_def tupleOperationHeader_def Let_def

lemma bindE_assoc: "bindE (bindE r f) g = bindE r (\<lambda>x. bindE (f x) g)"
  by (cases r) simp_all

lemma bindE_Inr_right [simp]: "bindE r Inr = r"
  by (cases r) simp_all

lemma bindE_eq_Inr: "bindE r f = Inr t \<longleftrightarrow> (\<exists>x. r = Inr x \<and> f x = Inr t)"
  by (cases r) simp_all

lemma lookupAddress_steps [simp]:
  "lookupAddress (emit ws s) l = lookupAddress s l"
  "lookupAddress (snd (getNewAddressLabel s)) l = lookupAddress s l"
  "lookupAddress (snd (getNewIterator s)) l = lookupAddress s l"
  "lookupAddress (snd (getNewTimer s)) l = lookupAddress s l"
  "lookupAddress (snd (encodeRel rel s)) l = lookupAddress s l"
  "lookupAddress (snd (symLookup str s)) l = lookupAddress s l"
  "lookupAddress (tupleOperationHeader p s) l = lookupAddress s l"
  by (simp_all add: lookupAddress_def)

lemma emit_Nil: "emit [] s = s"
  by (simp add: emit_def)

section \<open>Clean-up between the passes and parallel statements\<close>

text \<open>
  Claim C2, as amended. \<open>cleanUp\<close> empties the stream and the I/O sidetable and sets
  all three counters, the label counter included, back to zero. It keeps the label
  table, so that every label still resolves to the address it was given in the first
  pass, and it keeps the symbol table and the relation encoder.
\<close>

theorem cleanUp_resets:
  "code (cleanUp s) = [] \<and> IODirectives (cleanUp s) = [] \<and>
   currentAddressLabel (cleanUp s) = 0 \<and> iteratorIndex (cleanUp s) = 0 \<and>
   timerIndex (cleanUp s) = 0 \<and> addressMap (cleanUp s) = addressMap s \<and>
   lookupAddress (cleanUp s) l = lookupAddress s l \<and>
   symbolTable (cleanUp s) = symbolTable s \<and> relationEncoder (cleanUp s) = relationEncoder s"
  by (simp add: cleanUp_def lookupAddress_def)

text \<open>
  Claim C2 as stated fails: after the first pass over a loop the label counter is 1,
  and \<open>cleanUp\<close> sets it to 0.
\<close>

theorem cleanUp_label_counter_counterexample:
  "map_sum id currentAddressLabel (firstPass [] loopExample emptyEncoder) = Inr 1 \<and>
   map_sum id (currentAddressLabel \<circ> cleanUp) (firstPass [] loopExample emptyEncoder) = Inr 0"
  by (simp add: firstPass_def loopExample_def newGenerator_def cleanUp_def generator_defs)


section \<open>The two passes\<close>

text \<open>
  A visit from two states of the same shape ends in the same error or in two states of
  the same shape, whatever the label tables, the exit addresses, the symbol tables and
  the encoders of the two states are.
\<close>

lemma agree_Inr [simp]: "agree R (Inr t) (Inr t') = R t t'"
  by (simp add: agree_def)

lemma agree_Inl [simp]: "agree R (Inl e) (Inl e') = (e = e')"
  by (auto simp add: agree_def)

lemma agree_Inl_Inr [simp]: "\<not> agree R (Inl e) (Inr t')" "\<not> agree R (Inr t) (Inl e')" 
  by (auto simp add: agree_def)






lemma sameLoop_Pair [simp]: "sameLoop (s, x) (s', x') = (sameShape s s' \<and> x = x')"
  by (simp add: sameLoop_def)

lemma sameShape_emit [simp]:
  "sameShape (emit ws s) (emit ws' s') = (sameShape s s' \<and> length ws = length ws')" if "sameShape s s'"
  using that by (auto simp add: sameShape_def)

lemma sameShape_steps [simp]:
  "sameShape s s' \<Longrightarrow> sameShape (snd (getNewAddressLabel s)) (snd (getNewAddressLabel s'))"
  "sameShape s s' \<Longrightarrow> sameShape (snd (getNewIterator s)) (snd (getNewIterator s'))"
  "sameShape s s' \<Longrightarrow> sameShape (snd (getNewTimer s)) (snd (getNewTimer s'))"
  "sameShape s s' \<Longrightarrow> sameShape (snd (encodeRel rel s)) (snd (encodeRel rel s'))"
  "sameShape s s' \<Longrightarrow> sameShape (snd (symLookup str s)) (snd (symLookup str s'))"
  "sameShape s s' \<Longrightarrow> sameShape (setAddress l v s) (setAddress l' v' s')"
  "sameShape s s' \<Longrightarrow> sameShape (tupleOperationHeader p s) (tupleOperationHeader p s')"
  by (simp_all add: sameShape_def)






lemma sameShape_emitInst [simp]:
  "sameShape s s' \<Longrightarrow>
   sameShape (emitExistenceCheckInst a r i tm s) (emitExistenceCheckInst a r' i' tm s')"
  "sameShape s s' \<Longrightarrow>
   sameShape (emitRangeIndexInst a r i c tm s) (emitRangeIndexInst a r' i' c' tm s')"
  by (simp_all add: emitExistenceCheckInst_def emitRangeIndexInst_def Let_def)







lemma sameShape_IODirectives_update:
  "sameShape s s' \<Longrightarrow>
   sameShape (s\<lparr>IODirectives := IODirectives s @ [d]\<rparr>) (s'\<lparr>IODirectives := IODirectives s' @ [d]\<rparr>)"
  by (simp add: sameShape_def)

lemma sameShape_IODirectives: "sameShape s s' \<Longrightarrow> IODirectives s = IODirectives s'"
  by (simp add: sameShape_def)





section \<open>Visits that only emit\<close>

text \<open>
  Expressions and conditions, and the initialisation of a range index, only append
  words to the stream: they allocate no label, iterator or timer, and bind no label.
\<close>

lemma ensures_simps [simp]:
  "ensures P (Inr t) = P t"
  "ensures P (Inl e) = True"
  by (simp_all add: ensures_def)

lemma ensures_bindE:
  "ensures Q r \<Longrightarrow> (\<And>t. Q t \<Longrightarrow> ensures P (f t)) \<Longrightarrow> ensures P (bindE r f)"
  by (cases r) simp_all

lemma ensures_True [simp]: "ensures (\<lambda>x. True) r"
  by (cases r) simp_all

lemma ensures_getIndexPos:
  "(\<And>x. ensures P (f x)) \<Longrightarrow> ensures P (bindE (getIndexPos rel sig) f)"
  by (cases "getIndexPos rel sig") simp_all

lemma ensuresD: "ensures P r \<Longrightarrow> r = Inr t \<Longrightarrow> P t"
  by simp

lemma onlyEmits_refl [simp]: "onlyEmits s s"
  by (simp add: onlyEmits_def)

lemma onlyEmits_steps [simp]:
  "onlyEmits s t \<Longrightarrow> onlyEmits s (emit ws t)"
  "onlyEmits s t \<Longrightarrow> onlyEmits s (snd (encodeRel rel t))"
  "onlyEmits s t \<Longrightarrow> onlyEmits s (snd (symLookup str t))"
  by (auto simp: onlyEmits_def)

lemma onlyEmits_expressions:
  fixes e :: RamExpression
  shows "onlyEmits s0 s \<Longrightarrow> ensures (onlyEmits s0) (visitExpression e ea s)"
    and "onlyEmits s0 s \<Longrightarrow> ensures (onlyEmits s0) (visitExpressions es ea s)"
    and "onlyEmits s0 s \<Longrightarrow> ensures (onlyEmits s0) (visitExpressionsRev es ea s)"
    and "onlyEmits s0 s \<Longrightarrow> ensures (onlyEmits s0) (visitPrefix n es ea s)"
proof (induction e ea s and es ea s and es ea s and n es ea s
    rule: visitExpression_visitExpressions_visitExpressionsRev_visitPrefix.induct)
  case (4 op args exitAddress s)
  then show ?case
    by (cases op) (auto intro!: ensures_bindE [where Q = "onlyEmits s0"])
qed (auto intro!: ensures_bindE [where Q = "onlyEmits s0"] simp: case_prod_beta Let_def)

lemma onlyEmits_existenceLoop:
  "onlyEmits s0 s \<Longrightarrow>
   ensures (\<lambda>p. onlyEmits s0 (fst p)) (existenceLoop vs ea n (s, tm, e, f))"
  by (induction n arbitrary: s tm e f)
     (auto intro!: ensures_bindE [where Q = "onlyEmits s0"] onlyEmits_expressions(1))

lemma onlyEmits_patternLoop:
  "onlyEmits s0 s \<Longrightarrow>
   ensures (\<lambda>p. onlyEmits s0 (fst p)) (patternLoop vs ea n (s, tm, f))"
  by (induction n arbitrary: s tm f)
     (auto intro!: ensures_bindE [where Q = "onlyEmits s0"] onlyEmits_expressions(1))

lemma onlyEmits_emitInst [simp]:
  "onlyEmits s0 s \<Longrightarrow> onlyEmits s0 (emitExistenceCheckInst a r i tm s)"
  "onlyEmits s0 s \<Longrightarrow> onlyEmits s0 (emitRangeIndexInst a r i c tm s)"
  by (simp_all add: emitExistenceCheckInst_def emitRangeIndexInst_def Let_def)

lemma onlyEmits_condition:
  "onlyEmits s0 s \<Longrightarrow> ensures (onlyEmits s0) (visitCondition c ea s)"
proof (induction c arbitrary: s)
  case (RamConstraint op lhs rhs)
  then show ?case
    by (cases op)
       (auto intro!: ensures_bindE [where Q = "onlyEmits s0"] onlyEmits_expressions(1)
          simp: Let_def)
next
  case (RamExistenceCheck rel vs sig)
  then show ?case
    by (auto intro!: ensures_bindE [where Q = "\<lambda>p. onlyEmits s0 (fst p)"]
          ensures_getIndexPos onlyEmits_existenceLoop
          simp: case_prod_beta Let_def)
next
  case (RamProvenanceExistenceCheck rel vs sig)
  then show ?case
    by (auto intro!: ensures_bindE [where Q = "\<lambda>p. onlyEmits s0 (fst p)"]
          ensures_getIndexPos onlyEmits_patternLoop
          simp: case_prod_beta Let_def)
qed (auto intro!: ensures_bindE [where Q = "onlyEmits s0"] simp: case_prod_beta Let_def)

lemma onlyEmits_initRangeIndex:
  "onlyEmits s0 s \<Longrightarrow> ensures (onlyEmits s0) (initRangeIndex rel ps sig c ea s)"
  by (auto intro!: ensures_bindE [where Q = "\<lambda>p. onlyEmits s0 (fst p)"]
        ensures_getIndexPos onlyEmits_patternLoop
        simp: initRangeIndex_def case_prod_beta Let_def)

lemma onlyEmits_lookupAddress: "onlyEmits s t \<Longrightarrow> lookupAddress t l = lookupAddress s l"
  by (simp add: onlyEmits_def lookupAddress_def)

lemma onlyEmits_codeE:
  assumes "onlyEmits s t"
  obtains ws where "code t = code s @ ws"
  using assms by (auto simp: onlyEmits_def)

section \<open>The count shortcut\<close>

text \<open>
  Claim C6, as amended. For a count aggregate whose condition is \<open>RamTrue\<close> the
  generator emits exactly \<^verbatim>\<open>LVM_Aggregate, LVM_ITER_InitFullIndex, slot, id(R),
  LVM_Aggregate_COUNT, slot, LVM_Aggregate_Return, tid\<close>, with no loop and no initial
  value, binds the first label to the address of \<^verbatim>\<open>LVM_Aggregate_Return\<close>, and goes on
  with the nested tuple operation (\<^verbatim>\<open>LVM_Search\<close>, the profile flag, the profile text
  and the nested operation), after which it binds the second label. The state \<open>s1\<close> is
  the generator after the eight words.
\<close>

theorem visitAggregate_count_shortcut:
  "\<exists>s1. visitOperation
           (RamAggregate souffle_COUNT rel tupleId profileText expression RamTrue nested)
           exitAddress s =
         bindE (visitOperation nested exitAddress (tupleOperationHeader profileText s1))
           (\<lambda>t. Inr (setAddress (currentAddressLabel s + 1) (length (code t)) t)) \<and>
       code s1 = code s @
         [Op LVM_Aggregate, Op LVM_ITER_InitFullIndex, Size (iteratorIndex s),
          Size (fst (encodeRelation rel (relationEncoder s))), Op LVM_Aggregate_COUNT,
          Size (iteratorIndex s), Op LVM_Aggregate_Return, Size tupleId] \<and>
       iteratorIndex s1 = iteratorIndex s + 1 \<and>
       currentAddressLabel s1 = currentAddressLabel s + 2 \<and>
       lookupAddress s1 (currentAddressLabel s) = length (code s) + 6"
proof -
  define s1 where
    "s1 = emit [Op LVM_Aggregate_Return, Size tupleId]
            (setAddress (currentAddressLabel s) (length (code s) + 6)
              (emit [Op LVM_Aggregate_COUNT, Size (iteratorIndex s)]
                (emit [Size (fst (encodeRelation rel (relationEncoder s)))]
                  (snd (encodeRel rel
                    (emit [Op LVM_ITER_InitFullIndex, Size (iteratorIndex s)]
                      (snd (getNewAddressLabel (snd (getNewAddressLabel
                        (snd (getNewIterator (emit [Op LVM_Aggregate] s)))))))))))))"
  have "visitOperation
          (RamAggregate souffle_COUNT rel tupleId profileText expression RamTrue nested)
          exitAddress s =
        bindE (visitOperation nested exitAddress (tupleOperationHeader profileText s1))
          (\<lambda>t. Inr (setAddress (currentAddressLabel s + 1) (length (code t)) t))"
    by (simp add: s1_def aggregateBody_def case_prod_beta Let_def eval_nat_numeral)
  moreover have "code s1 = code s @
      [Op LVM_Aggregate, Op LVM_ITER_InitFullIndex, Size (iteratorIndex s),
       Size (fst (encodeRelation rel (relationEncoder s))), Op LVM_Aggregate_COUNT,
       Size (iteratorIndex s), Op LVM_Aggregate_Return, Size tupleId]"
    by (simp add: s1_def)
  moreover have "iteratorIndex s1 = iteratorIndex s + 1"
    and "currentAddressLabel s1 = currentAddressLabel s + 2"
    by (simp_all add: s1_def)
  moreover have "lookupAddress s1 (currentAddressLabel s) = length (code s) + 6"
    by (simp add: s1_def lookupAddress_def setAddress_def resize_def Let_def)
  ultimately show ?thesis
    by blast
qed

text \<open>
  Claim C6 as stated fails: no slot follows \<^verbatim>\<open>LVM_Aggregate\<close>, and the stream goes on
  after the tuple id with the words of the nested tuple operation.
\<close>

theorem count_shortcut_counterexample:
  "map_sum id code (visitOperation countExample 0 (newGenerator [] emptyEncoder)) =
     Inr [Op LVM_Aggregate, Op LVM_ITER_InitFullIndex, Size 0, Size 0, Op LVM_Aggregate_COUNT,
          Size 0, Op LVM_Aggregate_Return, Size 0, Op LVM_Search, Dom 0, Size 0,
          Op LVM_TupleElement, Size 0, Size 0, Op LVM_Project, Size 1, Size 1] \<and>
   map_sum id code (visitOperation countExample 0 (newGenerator [] emptyEncoder)) \<noteq>
     Inr [Op LVM_Aggregate, Size 0, Op LVM_ITER_InitFullIndex, Size 0, Size 0,
          Op LVM_Aggregate_COUNT, Size 0, Op LVM_Aggregate_Return, Size 0]"
  by (simp add: countExample_def newGenerator_def emptyEncoder_def relR_def relS_def
        aggregateBody_def encodeRelation_def lookup_def case_prod_beta Let_def)

section \<open>Existence checks\<close>

text \<open>
  The loops over a value pattern emit the bound values among the first \<open>n\<close> columns
  from the last to the first, mark them in the type mask, and report whether all of
  these columns are free and whether all are bound.
\<close>

lemma visitExpressionsRev_append:
  "visitExpressionsRev (xs @ ys) ea s =
     bindE (visitExpressionsRev ys ea s) (\<lambda>t. visitExpressionsRev xs ea t)"
  by (induction xs arbitrary: s) (simp_all add: bindE_def split: sum.split)

lemma markColumns_0 [simp]: "markColumns values 0 typeMask = typeMask"
  by (simp add: markColumns_def map_nth)

lemma markColumns_Suc_defined:
  "\<not> isRamUndefValue (values ! n) \<Longrightarrow>
   markColumns values n (typeMask[n := 1]) = markColumns values (Suc n) typeMask"
  by (auto simp: markColumns_def less_Suc_eq nth_list_update)

lemma markColumns_Suc_undef:
  "isRamUndefValue (values ! n) \<Longrightarrow>
   markColumns values (Suc n) typeMask = markColumns values n typeMask"
  by (auto simp: markColumns_def less_Suc_eq)

lemma definedValues_snoc:
  "definedValues (xs @ [v]) = (if isRamUndefValue v then definedValues xs else definedValues xs @ [v])"
  by (simp add: definedValues_def)

lemma existenceLoop_eq:
  "n \<le> length values \<Longrightarrow>
   existenceLoop values ea n (s, typeMask, e, f) =
     bindE (visitExpressionsRev (definedValues (take n values)) ea s)
       (\<lambda>t. Inr (t, markColumns values n typeMask,
                 e \<and> (\<forall>v \<in> set (take n values). isRamUndefValue v),
                 f \<and> (\<forall>v \<in> set (take n values). \<not> isRamUndefValue v)))"
proof (induction n arbitrary: s typeMask e f)
  case 0
  then show ?case by (simp add: definedValues_def)
next
  case (Suc n)
  then have n: "n < length values" "n \<le> length values" by simp_all
  show ?case
  proof (cases "isRamUndefValue (values ! n)")
    case True
    then show ?thesis
      using n Suc.IH [OF n(2)]
      by (simp add: take_Suc_conv_app_nth definedValues_snoc markColumns_Suc_undef)
  next
    case False
    then show ?thesis
      using n Suc.IH [OF n(2)]
      by (simp add: take_Suc_conv_app_nth definedValues_snoc markColumns_Suc_defined
            visitExpressionsRev_append bindE_assoc)
  qed
qed

lemma patternLoop_eq:
  "n \<le> length values \<Longrightarrow>
   patternLoop values ea n (s, typeMask, e) =
     bindE (visitExpressionsRev (definedValues (take n values)) ea s)
       (\<lambda>t. Inr (t, markColumns values n typeMask,
                 e \<and> (\<forall>v \<in> set (take n values). isRamUndefValue v)))"
proof (induction n arbitrary: s typeMask e)
  case 0
  then show ?case by (simp add: definedValues_def)
next
  case (Suc n)
  then have n: "n < length values" "n \<le> length values" by simp_all
  show ?case
  proof (cases "isRamUndefValue (values ! n)")
    case True
    then show ?thesis
      using n Suc.IH [OF n(2)]
      by (simp add: take_Suc_conv_app_nth definedValues_snoc markColumns_Suc_undef)
  next
    case False
    then show ?thesis
      using n Suc.IH [OF n(2)]
      by (simp add: take_Suc_conv_app_nth definedValues_snoc markColumns_Suc_defined
            visitExpressionsRev_append bindE_assoc)
  qed
qed


lemma bit_or_push_bit_flag:
  fixes types x :: "32 word"
  assumes "x = 0 \<or> x = 1"
  shows "bit (types OR push_bit j x) b \<longleftrightarrow> bit types b \<or> (b = j \<and> b < 32 \<and> x = 1)"
  using assms by (auto simp: bit_or_iff bit_push_bit_iff bit_1_iff)

lemma typesLoop_bit:
  assumes "\<forall>k < arity. typeMask ! k = 0 \<or> typeMask ! k = 1"
  shows "bit (typesLoop arity typeMask i j n types) b \<longleftrightarrow>
           bit types b \<or>
           (j \<le> b \<and> b < j + n \<and> b < 32 \<and> i * RAM_DOMAIN_SIZE + b < arity \<and>
            typeMask ! (i * RAM_DOMAIN_SIZE + b) = 1)"
proof (induction n arbitrary: j types)
  case 0
  have "\<not> (j \<le> b \<and> b < j + 0)" by arith
  then show ?case by auto
next
  case (Suc n)
  show ?case
  proof (cases "i * RAM_DOMAIN_SIZE + j \<ge> arity")
    case True
    then have "\<not> (j \<le> b \<and> i * RAM_DOMAIN_SIZE + b < arity)" by simp
    moreover have "typesLoop arity typeMask i j (Suc n) types = types"
      using True by (simp add: Let_def)
    ultimately show ?thesis by auto
  next
    case False
    then have k: "i * RAM_DOMAIN_SIZE + j < arity" by simp
    with assms have x: "typeMask ! (i * RAM_DOMAIN_SIZE + j) = 0 \<or>
                        typeMask ! (i * RAM_DOMAIN_SIZE + j) = 1"
      by blast
    have step: "typesLoop arity typeMask i j (Suc n) types =
                typesLoop arity typeMask i (j + 1) n
                  (types OR push_bit j (typeMask ! (i * RAM_DOMAIN_SIZE + j)))"
      using k by (simp add: Let_def)
    have split: "(j \<le> b \<and> b < j + Suc n) \<longleftrightarrow> b = j \<or> (j + 1 \<le> b \<and> b < j + 1 + n)"
      by arith
    show ?thesis
      unfolding step Suc.IH bit_or_push_bit_flag [OF x]
      using k split by blast
  qed
qed
lemma markColumns_nth:
  "k < arity \<Longrightarrow>
   markColumns values n (replicate arity 0) ! k =
     (if k < n \<and> \<not> isRamUndefValue (values ! k) then 1 else 0)"
  by (simp add: markColumns_def)

lemma spec_typeMaskWord_bit:
  "bit (spec_typeMaskWord bound i) j \<longleftrightarrow>
     j < RAM_DOMAIN_SIZE \<and> i * RAM_DOMAIN_SIZE + j < length bound \<and>
     bound ! (i * RAM_DOMAIN_SIZE + j)"
  by (auto simp: spec_typeMaskWord_def bit_horner_sum_bit_word_iff RAM_DOMAIN_SIZE_def)

lemma numOfTypeMasks_ceil:
  "numOfTypeMasks arity = (arity + RAM_DOMAIN_SIZE - 1) div RAM_DOMAIN_SIZE"
proof -
  define q r where "q = arity div 32" and "r = arity mod 32"
  have a: "arity = 32 * q + r" and r: "r < 32"
    by (simp_all add: q_def r_def)
  have "(arity + 32 - 1) div 32 = q + (r + 31) div 32"
    unfolding a by simp
  moreover have "(r + 31) div 32 = (if r \<noteq> 0 then 1 else 0)"
    using r by (simp add: div_eq_0_iff) (simp add: Suc_leI div_nat_eqI)
  ultimately show ?thesis
    by (simp add: q_def r_def numOfTypeMasks_def RAM_DOMAIN_SIZE_def)
qed

lemma typeMaskWords_spec:
  "typeMaskWords arity (markColumns values n (replicate arity 0)) =
     spec_typeMask (boundColumns values n arity)"
proof -
  have "typesLoop arity (markColumns values n (replicate arity 0)) i 0 RAM_DOMAIN_SIZE 0 =
        spec_typeMaskWord (boundColumns values n arity) i" for i
  proof (rule bit_word_eqI)
    fix b
    assume "b < LENGTH(32)"
    then have b: "b < 32" by simp
    have m: "\<forall>k < arity. markColumns values n (replicate arity 0) ! k = 0 \<or>
                          markColumns values n (replicate arity 0) ! k = 1"
      by (simp add: markColumns_nth)
    show "bit (typesLoop arity (markColumns values n (replicate arity 0)) i 0 RAM_DOMAIN_SIZE 0) b
          = bit (spec_typeMaskWord (boundColumns values n arity) i) b"
      using b
      by (auto simp: typesLoop_bit [OF m] spec_typeMaskWord_bit markColumns_nth
            boundColumns_def RAM_DOMAIN_SIZE_def split: if_splits)
  qed
  then show ?thesis
    by (simp add: typeMaskWords_def spec_typeMask_def numOfTypeMasks_ceil boundColumns_def)
qed

lemma boundColumns_all:
  "length values = arity \<Longrightarrow>
   boundColumns values arity arity = map (\<lambda>v. \<not> isRamUndefValue v) values"
  by (auto simp: boundColumns_def list_eq_iff_nth_eq)

lemma boundColumns_provenance:
  "2 \<le> arity \<Longrightarrow> arity - 2 \<le> length values \<Longrightarrow>
   boundColumns values (arity - 2) arity =
     map (\<lambda>v. \<not> isRamUndefValue v) (take (arity - 2) values) @ [False, False]"
  by (auto simp: boundColumns_def list_eq_iff_nth_eq nth_append nth_Cons split: nat.splits)

lemma definedValues_all: "\<forall>v\<in>set values. \<not> isRamUndefValue v \<Longrightarrow> definedValues values = values"
  by (simp add: definedValues_def)

lemma definedValues_none: "\<forall>v\<in>set values. isRamUndefValue v \<Longrightarrow> definedValues values = []"
  by (simp add: definedValues_def)

lemma emitExistenceCheckInst_eq:
  "emitExistenceCheckInst arity relId indexPos typeMask s =
     emit ([Op (if numOfTypeMasks arity = 1 then LVM_ExistenceCheckOneArg
                else LVM_ExistenceCheck),
            Size relId, Size indexPos] @ typeMaskWords arity typeMask) s"
  by (simp add: emitExistenceCheckInst_def emit_def Let_def)

lemma visitExistenceCheck_cases:
  assumes "length values = getArity rel"
  shows "visitCondition (RamExistenceCheck rel values sig) exitAddress s =
    (let arity = getArity rel;
         relId = fst (encodeRelation rel (relationEncoder s));
         s0 = snd (encodeRel rel s)
     in if \<forall>v \<in> set values. isRamUndefValue v then
          Inr (emit [Op LVM_EmptinessCheck, Size relId, Op LVM_Negation] s0)
        else if \<forall>v \<in> set values. \<not> isRamUndefValue v then
          bindE (visitExpressionsRev values exitAddress s0)
            (\<lambda>t. Inr (emit [Op LVM_ContainCheck, Size relId] t))
        else
          bindE (visitExpressionsRev (definedValues values) exitAddress s0)
            (\<lambda>t. bindE (getIndexPos rel sig)
               (\<lambda>indexPos. Inr (emit
                  ([Op (if (arity + RAM_DOMAIN_SIZE - 1) div RAM_DOMAIN_SIZE = 1
                        then LVM_ExistenceCheckOneArg else LVM_ExistenceCheck),
                    Size relId, Size indexPos] @
                   spec_typeMask (map (\<lambda>v. \<not> isRamUndefValue v) values)) t))))"
proof -
  let ?arity = "getArity rel"
  let ?s0 = "snd (encodeRel rel s)"
  have loop: "existenceLoop values exitAddress ?arity (?s0, replicate ?arity 0, True, True) =
      bindE (visitExpressionsRev (definedValues values) exitAddress ?s0)
        (\<lambda>t. Inr (t, markColumns values ?arity (replicate ?arity 0),
                  (\<forall>v \<in> set values. isRamUndefValue v),
                  (\<forall>v \<in> set values. \<not> isRamUndefValue v)))"
    using existenceLoop_eq [of "getArity rel" "values" exitAddress "snd (encodeRel rel s)"
        "replicate (getArity rel) 0" True True] assms
    by simp
  have unfold: "visitCondition (RamExistenceCheck rel values sig) exitAddress s =
      bindE (visitExpressionsRev (definedValues values) exitAddress ?s0)
        (\<lambda>t. if \<forall>v \<in> set values. isRamUndefValue v then
                Inr (emit [Op LVM_EmptinessCheck,
                           Size (fst (encodeRelation rel (relationEncoder s))),
                           Op LVM_Negation] t)
              else if \<forall>v \<in> set values. \<not> isRamUndefValue v then
                Inr (emit [Op LVM_ContainCheck,
                           Size (fst (encodeRelation rel (relationEncoder s)))] t)
              else
                bindE (getIndexPos rel sig)
                  (\<lambda>indexPos. Inr (emitExistenceCheckInst ?arity
                     (fst (encodeRelation rel (relationEncoder s))) indexPos
                     (markColumns values ?arity (replicate ?arity 0)) t)))"
    by (simp add: Let_def case_prod_beta loop bindE_assoc cong del: if_weak_cong)
  have mask: "typeMaskWords ?arity (markColumns values ?arity (replicate ?arity 0)) =
      spec_typeMask (map (\<lambda>v. \<not> isRamUndefValue v) values)"
    using assms by (simp add: typeMaskWords_spec boundColumns_all)
  show ?thesis
  proof (cases "\<forall>v \<in> set values. isRamUndefValue v")
    case True
    then have "definedValues values = []"
      by (rule definedValues_none)
    with True show ?thesis
      unfolding unfold Let_def by simp
  next
    case free: False
    show ?thesis
    proof (cases "\<forall>v \<in> set values. \<not> isRamUndefValue v")
      case True
      then have "definedValues values = values"
        by (rule definedValues_all)
      with True free show ?thesis
        unfolding unfold Let_def by simp
    next
      case False
      with free show ?thesis
        unfolding unfold Let_def
        by (simp only: if_False emitExistenceCheckInst_eq mask numOfTypeMasks_ceil)
    qed
  qed
qed

lemma visitProvenanceExistenceCheck_cases:
  assumes "2 \<le> getArity rel" and "getArity rel - 2 \<le> length values"
  shows "visitCondition (RamProvenanceExistenceCheck rel values sig) exitAddress s =
    (let arity = getArity rel;
         relId = fst (encodeRelation rel (relationEncoder s));
         s0 = snd (encodeRel rel s);
         columns = take (arity - 2) values
     in if \<forall>v \<in> set columns. isRamUndefValue v then
          Inr (emit [Op LVM_EmptinessCheck, Size relId, Op LVM_Negation] s0)
        else
          bindE (visitExpressionsRev (definedValues columns) exitAddress s0)
            (\<lambda>t. bindE (getIndexPos rel sig)
               (\<lambda>indexPos. Inr (emit
                  ([Op (if (arity + RAM_DOMAIN_SIZE - 1) div RAM_DOMAIN_SIZE = 1
                        then LVM_ExistenceCheckOneArg else LVM_ExistenceCheck),
                    Size relId, Size indexPos] @
                   spec_typeMask (map (\<lambda>v. \<not> isRamUndefValue v) columns @ [False, False]))
                  t))))"
proof -
  let ?arity = "getArity rel"
  let ?s0 = "snd (encodeRel rel s)"
  let ?columns = "take (?arity - 2) values"
  have start: "size_t_sub ?arity 2 = ?arity - 2"
    using assms(1) by (simp add: size_t_sub_def)
  have loop: "patternLoop values exitAddress (?arity - 2) (?s0, replicate ?arity 0, True) =
      bindE (visitExpressionsRev (definedValues ?columns) exitAddress ?s0)
        (\<lambda>t. Inr (t, markColumns values (?arity - 2) (replicate ?arity 0),
                  (\<forall>v \<in> set ?columns. isRamUndefValue v)))"
    using patternLoop_eq [OF assms(2), of exitAddress "snd (encodeRel rel s)"
        "replicate (getArity rel) 0" True]
    by simp
  have unfold: "visitCondition (RamProvenanceExistenceCheck rel values sig) exitAddress s =
      bindE (visitExpressionsRev (definedValues ?columns) exitAddress ?s0)
        (\<lambda>t. if \<forall>v \<in> set ?columns. isRamUndefValue v then
                Inr (emit [Op LVM_EmptinessCheck,
                           Size (fst (encodeRelation rel (relationEncoder s))),
                           Op LVM_Negation] t)
              else
                bindE (getIndexPos rel sig)
                  (\<lambda>indexPos. Inr (emitExistenceCheckInst ?arity
                     (fst (encodeRelation rel (relationEncoder s))) indexPos
                     (markColumns values (?arity - 2) (replicate ?arity 0)) t)))"
    by (simp add: Let_def case_prod_beta start loop bindE_assoc cong del: if_weak_cong)
  have mask: "typeMaskWords ?arity (markColumns values (?arity - 2) (replicate ?arity 0)) =
      spec_typeMask (map (\<lambda>v. \<not> isRamUndefValue v) ?columns @ [False, False])"
    using assms by (simp add: typeMaskWords_spec boundColumns_provenance)
  show ?thesis
  proof (cases "\<forall>v \<in> set ?columns. isRamUndefValue v")
    case True
    then have "definedValues ?columns = []"
      by (rule definedValues_none)
    with True show ?thesis
      unfolding unfold Let_def by simp
  next
    case False
    then show ?thesis
      unfolding unfold Let_def
      by (simp only: if_False emitExistenceCheckInst_eq mask numOfTypeMasks_ceil)
  qed
qed

lemma spec_typeMask_ex1: "spec_typeMask [True, False] = [Dom 1]"
proof -
  have "spec_typeMaskWord [True, False] 0 = 1"
    by (rule bit_word_eqI)
       (auto simp: spec_typeMaskWord_bit bit_1_iff nth_Cons' RAM_DOMAIN_SIZE_def)
  then show ?thesis
    by (simp add: spec_typeMask_def RAM_DOMAIN_SIZE_def)
qed

lemma spec_typeMask_ex2: "spec_typeMask [True, False, False] = [Dom 1]"
proof -
  have "spec_typeMaskWord [True, False, False] 0 = 1"
    by (rule bit_word_eqI)
       (auto simp: spec_typeMaskWord_bit bit_1_iff nth_Cons' RAM_DOMAIN_SIZE_def)
  then show ?thesis
    by (simp add: spec_typeMask_def RAM_DOMAIN_SIZE_def)
qed

text \<open>
  Claim C3 (the three cases of an existence check). For a pattern with one value for
  each column: when every column is free, only an emptiness check of the relation and
  a negation are emitted; else when every column is bound, the values are emitted from
  the last column to the first, followed by \<^verbatim>\<open>LVM_ContainCheck\<close> and the id of the
  relation, without a type mask; otherwise the bound values are emitted from the last
  column to the first, followed by the existence opcode, the id of the relation, the
  index position and the type mask. The type mask has one word for every
  \<^verbatim>\<open>RAM_DOMAIN_SIZE\<close> columns, rounded up; bit \<open>j\<close> of word \<open>i\<close> is set exactly when
  column \<open>i * RAM_DOMAIN_SIZE + j\<close> is bound; and the opcode is
  \<^verbatim>\<open>LVM_ExistenceCheckOneArg\<close> exactly when the mask has one word. A relation without
  columns falls under the first case.
\<close>

theorem visitExistenceCheck_trichotomy:
  assumes "length values = getArity rel"
  shows "visitCondition (RamExistenceCheck rel values sig) exitAddress s =
    (let arity = getArity rel;
         relId = fst (encodeRelation rel (relationEncoder s));
         s0 = snd (encodeRel rel s)
     in if \<forall>v \<in> set values. isRamUndefValue v then
          Inr (emit [Op LVM_EmptinessCheck, Size relId, Op LVM_Negation] s0)
        else if \<forall>v \<in> set values. \<not> isRamUndefValue v then
          bindE (visitExpressionsRev values exitAddress s0)
            (\<lambda>t. Inr (emit [Op LVM_ContainCheck, Size relId] t))
        else
          bindE (visitExpressionsRev (definedValues values) exitAddress s0)
            (\<lambda>t. bindE (getIndexPos rel sig)
               (\<lambda>indexPos. Inr (emit
                  ([Op (if (arity + RAM_DOMAIN_SIZE - 1) div RAM_DOMAIN_SIZE = 1
                        then LVM_ExistenceCheckOneArg else LVM_ExistenceCheck),
                    Size relId, Size indexPos] @
                   spec_typeMask (map (\<lambda>v. \<not> isRamUndefValue v) values)) t)))) \<and>
    length (spec_typeMask (map (\<lambda>v. \<not> isRamUndefValue v) values)) =
      (getArity rel + RAM_DOMAIN_SIZE - 1) div RAM_DOMAIN_SIZE \<and>
    (\<forall>i j. bit (spec_typeMaskWord (map (\<lambda>v. \<not> isRamUndefValue v) values) i) j \<longleftrightarrow>
       j < RAM_DOMAIN_SIZE \<and> i * RAM_DOMAIN_SIZE + j < getArity rel \<and>
       \<not> isRamUndefValue (values ! (i * RAM_DOMAIN_SIZE + j)))"
  using visitExistenceCheck_cases [OF assms] assms
  by (auto simp: spec_typeMask_def spec_typeMaskWord_bit)

theorem visitExistenceCheck_trichotomy_witness:
  "map_sum id code
     (visitCondition (RamExistenceCheck relR [RamNumber 5, RamUndefValue] 1) 0
        (newGenerator [] emptyEncoder)) =
   Inr [Op LVM_Number, Dom 5, Op LVM_ExistenceCheckOneArg, Size 0, Size 0, Dom 1]"
proof -
  have h: "length [RamNumber 5, RamUndefValue] = getArity relR"
    by (simp add: relR_def)
  show ?thesis
    unfolding visitExistenceCheck_trichotomy [OF h, THEN conjunct1]
    by (simp add: definedValues_def getIndexPos_def getLexOrderNum_def relR_def
          newGenerator_def emptyEncoder_def encodeRelation_def spec_typeMask_ex1
          RAM_DOMAIN_SIZE_def Let_def)
qed

text \<open>
  Claim C4 (provenance existence check). For a relation of arity \<open>a\<close>, at least 2,
  only the columns 0 to \<open>a - 3\<close> are looked at, column 0 like the others: when all of
  them are free an emptiness check and a negation are emitted; otherwise their bound
  values are emitted from the last to the first, followed by the partial existence
  check, in whose type mask exactly the bound ones among the columns 0 to \<open>a - 3\<close>
  are set. The last two columns are never emitted and never marked.
\<close>

theorem visitProvenanceExistenceCheck_columns:
  assumes "2 \<le> getArity rel" and "getArity rel - 2 \<le> length values"
  shows "visitCondition (RamProvenanceExistenceCheck rel values sig) exitAddress s =
    (let arity = getArity rel;
         relId = fst (encodeRelation rel (relationEncoder s));
         s0 = snd (encodeRel rel s);
         columns = take (arity - 2) values
     in if \<forall>v \<in> set columns. isRamUndefValue v then
          Inr (emit [Op LVM_EmptinessCheck, Size relId, Op LVM_Negation] s0)
        else
          bindE (visitExpressionsRev (definedValues columns) exitAddress s0)
            (\<lambda>t. bindE (getIndexPos rel sig)
               (\<lambda>indexPos. Inr (emit
                  ([Op (if (arity + RAM_DOMAIN_SIZE - 1) div RAM_DOMAIN_SIZE = 1
                        then LVM_ExistenceCheckOneArg else LVM_ExistenceCheck),
                    Size relId, Size indexPos] @
                   spec_typeMask (map (\<lambda>v. \<not> isRamUndefValue v) columns @ [False, False]))
                  t)))) \<and>
    (\<forall>i j. bit (spec_typeMaskWord
                 (map (\<lambda>v. \<not> isRamUndefValue v) (take (getArity rel - 2) values) @
                  [False, False]) i) j \<longleftrightarrow>
       j < RAM_DOMAIN_SIZE \<and> i * RAM_DOMAIN_SIZE + j < getArity rel - 2 \<and>
       \<not> isRamUndefValue (values ! (i * RAM_DOMAIN_SIZE + j)))"
proof -
  have "bit (spec_typeMaskWord
               (map (\<lambda>v. \<not> isRamUndefValue v) (take (getArity rel - 2) values) @
                [False, False]) i) j \<longleftrightarrow>
        j < RAM_DOMAIN_SIZE \<and> i * RAM_DOMAIN_SIZE + j < getArity rel - 2 \<and>
        \<not> isRamUndefValue (values ! (i * RAM_DOMAIN_SIZE + j))" for i j
    using assms
    by (auto simp: spec_typeMaskWord_bit nth_append nth_Cons' min_def)
  then show ?thesis
    using visitProvenanceExistenceCheck_cases [OF assms] by blast
qed

theorem visitProvenanceExistenceCheck_columns_witness:
  "map_sum id code
     (visitCondition
        (RamProvenanceExistenceCheck relP [RamNumber 5, RamUndefValue, RamUndefValue] 1) 0
        (newGenerator [] emptyEncoder)) =
   Inr [Op LVM_Number, Dom 5, Op LVM_ExistenceCheckOneArg, Size 0, Size 0, Dom 1]"
proof -
  have h1: "2 \<le> getArity relP"
    by (simp add: relP_def)
  have h2: "getArity relP - 2 \<le> length [RamNumber 5, RamUndefValue, RamUndefValue]"
    by (simp add: relP_def)
  show ?thesis
    unfolding visitProvenanceExistenceCheck_columns [OF h1 h2, THEN conjunct1]
    by (simp add: definedValues_def getIndexPos_def getLexOrderNum_def relP_def
          newGenerator_def emptyEncoder_def encodeRelation_def spec_typeMask_ex2
          RAM_DOMAIN_SIZE_def Let_def)
qed

section \<open>Aggregates\<close>

text \<open>
  The part of an aggregate that both visitors share, when it does not take the count
  shortcut: it starts with the seed and ends with the return of the result and, for a
  minimum or maximum, the comparison with the seed and the jump to the second label.
\<close>

lemma aggregateInitValue_seed: "aggregateInitValue f = [Op LVM_Number, Dom (aggregateSeed f)]"
  by (cases f) (simp_all add: aggregateInitValue_def aggregateSeed_def)

lemma aggregateBody_layout:
  assumes "\<not> (f = souffle_COUNT \<and> isRamTrue c)"
    and "L1 \<noteq> L2" and "L2 \<noteq> currentAddressLabel s"
  shows "ensures
           (\<lambda>s1. \<exists>loop. code s1 =
                    code s @ [Op LVM_Number, Dom (aggregateSeed f)] @ loop @
                    [Op LVM_Aggregate_Return, Size tid] @
                    aggregateGuard f tid (lookupAddress s L2))
           (aggregateBody f c e tid slot L1 L2 ea s)"
proof -
  define sC where
    "sC = snd (getNewAddressLabel
            (emit [Op LVM_ITER_NotAtEnd, Size slot, Op LVM_Jmpez,
                   Addr (lookupAddress (emit (aggregateInitValue f) s) L1),
                   Op LVM_ITER_Select, Size slot, Size tid]
              (emit (aggregateInitValue f) s)))"
  define Q where
    "Q = (\<lambda>sH. (\<exists>loop. code sH = code s @ [Op LVM_Number, Dom (aggregateSeed f)] @ loop) \<and>
               lookupAddress sH L2 = lookupAddress s L2)"
  have sC_code: "code sC = code s @ [Op LVM_Number, Dom (aggregateSeed f)] @
                   [Op LVM_ITER_NotAtEnd, Size slot, Op LVM_Jmpez,
                    Addr (lookupAddress s L1), Op LVM_ITER_Select, Size slot, Size tid]"
    and sC_look: "lookupAddress sC L2 = lookupAddress s L2"
    by (simp_all add: sC_def aggregateInitValue_seed)
  have final: "Q (emit ws3 (setAddress (currentAddressLabel s) v (emit ws2 sE)))"
    if "onlyEmits sC sE" for sE ws2 ws3 v
  proof -
    from that obtain ws where "code sE = code sC @ ws"
      by (rule onlyEmits_codeE)
    moreover have "lookupAddress sE L2 = lookupAddress sC L2"
      using that by (rule onlyEmits_lookupAddress)
    ultimately show ?thesis
      using assms(3) by (simp add: Q_def sC_code sC_look lookupAddress_setAddress)
  qed
  have cond: "ensures (onlyEmits sC)
      (if \<not> isRamTrue c then
         bindE (visitCondition c ea sC)
           (\<lambda>s'. Inr (emit [Op LVM_Jmpez, Addr (lookupAddress s' (currentAddressLabel s))] s'))
       else Inr sC)"
    by (auto intro!: ensures_bindE [where Q = "onlyEmits sC"] onlyEmits_condition)
  have expr: "ensures (onlyEmits sC)
      (if f \<noteq> souffle_COUNT then visitExpression e ea sD else Inr sD)"
    if "onlyEmits sC sD" for sD
    using that by (auto intro!: onlyEmits_expressions(1))
  have loop: "ensures Q
      (bindE
        (if \<not> isRamTrue c then
           bindE (visitCondition c ea sC)
             (\<lambda>s'. Inr (emit [Op LVM_Jmpez, Addr (lookupAddress s' (currentAddressLabel s))] s'))
         else Inr sC)
        (\<lambda>sD. bindE (if f \<noteq> souffle_COUNT then visitExpression e ea sD else Inr sD)
           (\<lambda>sE. Inr (emit [Op LVM_ITER_Inc, Size slot, Op LVM_Goto,
                             Addr (length (code s) + 2)]
                   (setAddress (currentAddressLabel s)
                      (length (code sE) + length (aggregateStep f))
                      (emit (aggregateStep f) sE))))))"
    by (rule ensures_bindE [OF cond], rule ensures_bindE [OF expr]) (simp_all add: final)
  have body: "aggregateBody f c e tid slot L1 L2 ea s =
      bindE
        (bindE
          (if \<not> isRamTrue c then
             bindE (visitCondition c ea sC)
               (\<lambda>s'. Inr (emit [Op LVM_Jmpez, Addr (lookupAddress s' (currentAddressLabel s))] s'))
           else Inr sC)
          (\<lambda>sD. bindE (if f \<noteq> souffle_COUNT then visitExpression e ea sD else Inr sD)
             (\<lambda>sE. Inr (emit [Op LVM_ITER_Inc, Size slot, Op LVM_Goto,
                               Addr (length (code s) + 2)]
                     (setAddress (currentAddressLabel s)
                        (length (code sE) + length (aggregateStep f))
                        (emit (aggregateStep f) sE))))))
        (\<lambda>sH. Inr (emit (aggregateGuard f tid (lookupAddress sH L2))
                 (emit [Op LVM_Aggregate_Return, Size tid]
                    (setAddress L1 (length (code sH)) sH))))"
    using assms(1,2)
    by (cases f;
        simp add: aggregateBody_def sC_def Let_def case_prod_beta aggregateInitValue_seed
          aggregateGuard_def aggregateSeed_def lookupAddress_setAddress emit_Nil)
  show ?thesis
    unfolding body
    by (rule ensures_bindE [OF loop])
       (auto simp: Q_def lookupAddress_setAddress assms(2))
qed

text \<open>
  Claim C5, as amended. For every aggregate and indexed aggregate that does not take
  the count shortcut, the accumulator is seeded with the largest domain value for a
  minimum, the smallest for a maximum, and 0 for a count and a sum. For a minimum or
  maximum the words after the loop read the result back, compare it with the seed and
  jump, when they are equal, to the address of the second label; the nested tuple
  operation follows, and the second label is bound to the address after it.
\<close>

theorem aggregate_seed_and_guard:
  "\<not> (f = souffle_COUNT \<and> isRamTrue c) \<longrightarrow>
   (visitOperation (RamAggregate f rel tid p e c nested) ea s = Inr t \<longrightarrow>
      (\<exists>loop s1 t1.
         code s1 = code s @
           [Op LVM_Aggregate, Op LVM_ITER_InitFullIndex, Size (iteratorIndex s),
            Size (fst (encodeRelation rel (relationEncoder s))),
            Op LVM_Number, Dom (aggregateSeed f)] @ loop @
           [Op LVM_Aggregate_Return, Size tid] @
           aggregateGuard f tid (lookupAddress s (currentAddressLabel s + 1)) \<and>
         visitOperation nested ea (tupleOperationHeader p s1) = Inr t1 \<and>
         t = setAddress (currentAddressLabel s + 1) (length (code t1)) t1 \<and>
         lookupAddress t (currentAddressLabel s + 1) = length (code t))) \<and>
   (visitOperation (RamIndexAggregate f rel tid p ps sig e c nested) ea s = Inr t \<longrightarrow>
      (\<exists>init loop s1 t1.
         code s1 = code s @ [Op LVM_IndexAggregate] @ init @
           [Op LVM_Number, Dom (aggregateSeed f)] @ loop @
           [Op LVM_Aggregate_Return, Size tid] @
           aggregateGuard f tid (lookupAddress s (currentAddressLabel s + 1)) \<and>
         visitOperation nested ea (tupleOperationHeader p s1) = Inr t1 \<and>
         t = setAddress (currentAddressLabel s + 1) (length (code t1)) t1 \<and>
         lookupAddress t (currentAddressLabel s + 1) = length (code t)))"
proof (intro impI conjI)
  assume ns: "\<not> (f = souffle_COUNT \<and> isRamTrue c)"
  let ?L1 = "currentAddressLabel s"
  let ?L2 = "currentAddressLabel s + 1"
  {
    assume v: "visitOperation (RamAggregate f rel tid p e c nested) ea s = Inr t"
    define sA where
      "sA = emit [Size (fst (encodeRelation rel (relationEncoder s)))]
              (snd (encodeRel rel
                (emit [Op LVM_ITER_InitFullIndex, Size (iteratorIndex s)]
                  (snd (getNewAddressLabel (snd (getNewAddressLabel
                    (snd (getNewIterator (emit [Op LVM_Aggregate] s))))))))))"
    from v obtain s1 t1 where
      b: "aggregateBody f c e tid (iteratorIndex s) ?L1 ?L2 ea sA = Inr s1"
      and n: "visitOperation nested ea (tupleOperationHeader p s1) = Inr t1"
      and t: "t = setAddress ?L2 (length (code t1)) t1"
      by (auto simp: Let_def case_prod_beta bindE_eq_Inr sA_def)
    have "ensures
           (\<lambda>s1. \<exists>loop. code s1 =
                    code sA @ [Op LVM_Number, Dom (aggregateSeed f)] @ loop @
                    [Op LVM_Aggregate_Return, Size tid] @
                    aggregateGuard f tid (lookupAddress sA ?L2))
           (aggregateBody f c e tid (iteratorIndex s) ?L1 ?L2 ea sA)"
      by (rule aggregateBody_layout [OF ns]) (simp_all add: sA_def)
    from ensuresD [OF this b] obtain loop where
      "code s1 = code sA @ [Op LVM_Number, Dom (aggregateSeed f)] @ loop @
         [Op LVM_Aggregate_Return, Size tid] @ aggregateGuard f tid (lookupAddress sA ?L2)"
      by blast
    then have "code s1 = code s @
           [Op LVM_Aggregate, Op LVM_ITER_InitFullIndex, Size (iteratorIndex s),
            Size (fst (encodeRelation rel (relationEncoder s))),
            Op LVM_Number, Dom (aggregateSeed f)] @ loop @
           [Op LVM_Aggregate_Return, Size tid] @
           aggregateGuard f tid (lookupAddress s ?L2)"
      by (simp add: sA_def)
    moreover have "lookupAddress t ?L2 = length (code t)"
      by (simp add: t lookupAddress_setAddress)
    ultimately show "\<exists>loop s1 t1.
         code s1 = code s @
           [Op LVM_Aggregate, Op LVM_ITER_InitFullIndex, Size (iteratorIndex s),
            Size (fst (encodeRelation rel (relationEncoder s))),
            Op LVM_Number, Dom (aggregateSeed f)] @ loop @
           [Op LVM_Aggregate_Return, Size tid] @
           aggregateGuard f tid (lookupAddress s ?L2) \<and>
         visitOperation nested ea (tupleOperationHeader p s1) = Inr t1 \<and>
         t = setAddress ?L2 (length (code t1)) t1 \<and>
         lookupAddress t ?L2 = length (code t)"
      using n t by blast
  }
  {
    assume v: "visitOperation (RamIndexAggregate f rel tid p ps sig e c nested) ea s = Inr t"
    define s0 where
      "s0 = snd (getNewAddressLabel (snd (getNewAddressLabel
              (snd (getNewIterator (emit [Op LVM_IndexAggregate] s))))))"
    from v obtain sA s1 t1 where
      i: "initRangeIndex rel ps sig (iteratorIndex s) ea s0 = Inr sA"
      and b: "aggregateBody f c e tid (iteratorIndex s) ?L1 ?L2 ea sA = Inr s1"
      and n: "visitOperation nested ea (tupleOperationHeader p s1) = Inr t1"
      and t: "t = setAddress ?L2 (length (code t1)) t1"
      by (auto simp: Let_def case_prod_beta bindE_eq_Inr s0_def)
    have "onlyEmits s0 sA"
      using onlyEmits_initRangeIndex [OF onlyEmits_refl] i by (rule ensuresD)
    then obtain init where init: "code sA = code s0 @ init"
      and lab: "currentAddressLabel sA = currentAddressLabel s0"
      by (auto simp: onlyEmits_def)
    have look: "lookupAddress sA l = lookupAddress s l" for l
      using \<open>onlyEmits s0 sA\<close> by (simp add: onlyEmits_lookupAddress s0_def)
    have "ensures
           (\<lambda>s1. \<exists>loop. code s1 =
                    code sA @ [Op LVM_Number, Dom (aggregateSeed f)] @ loop @
                    [Op LVM_Aggregate_Return, Size tid] @
                    aggregateGuard f tid (lookupAddress sA ?L2))
           (aggregateBody f c e tid (iteratorIndex s) ?L1 ?L2 ea sA)"
      by (rule aggregateBody_layout [OF ns]) (simp_all add: lab s0_def)
    from ensuresD [OF this b] obtain loop where
      "code s1 = code sA @ [Op LVM_Number, Dom (aggregateSeed f)] @ loop @
         [Op LVM_Aggregate_Return, Size tid] @ aggregateGuard f tid (lookupAddress sA ?L2)"
      by blast
    then have "code s1 = code s @ [Op LVM_IndexAggregate] @ init @
           [Op LVM_Number, Dom (aggregateSeed f)] @ loop @
           [Op LVM_Aggregate_Return, Size tid] @
           aggregateGuard f tid (lookupAddress s ?L2)"
      by (simp add: init look s0_def)
    moreover have "lookupAddress t ?L2 = length (code t)"
      by (simp add: t lookupAddress_setAddress)
    ultimately show "\<exists>init loop s1 t1.
         code s1 = code s @ [Op LVM_IndexAggregate] @ init @
           [Op LVM_Number, Dom (aggregateSeed f)] @ loop @
           [Op LVM_Aggregate_Return, Size tid] @
           aggregateGuard f tid (lookupAddress s ?L2) \<and>
         visitOperation nested ea (tupleOperationHeader p s1) = Inr t1 \<and>
         t = setAddress ?L2 (length (code t1)) t1 \<and>
         lookupAddress t ?L2 = length (code t)"
      using n t by blast
  }
qed

theorem aggregate_seed_and_guard_witness:
  "\<exists>t loop s1 t1.
     visitOperation minExample 0 (newGenerator [] emptyEncoder) = Inr t \<and>
     code s1 =
       [Op LVM_Aggregate, Op LVM_ITER_InitFullIndex, Size 0, Size 0,
        Op LVM_Number, Dom MAX_RAM_DOMAIN] @ loop @
       [Op LVM_Aggregate_Return, Size 0, Op LVM_TupleElement, Size 0, Dom 0, Op LVM_Number,
        Dom MAX_RAM_DOMAIN, Op LVM_OP_EQ, Op LVM_Jmpnz, Addr 0] \<and>
     visitOperation (RamProject relS [RamTupleElement 0 0]) 0 (tupleOperationHeader [] s1) =
       Inr t1 \<and>
     t = setAddress 1 (length (code t1)) t1 \<and>
     lookupAddress t 1 = length (code t)"
proof -
  obtain t where h: "visitOperation minExample 0 (newGenerator [] emptyEncoder) = Inr t"
    by (simp add: minExample_def newGenerator_def emptyEncoder_def relR_def relS_def
          aggregateBody_def encodeRelation_def lookup_def case_prod_beta Let_def)
  have n: "\<not> (souffle_MIN = souffle_COUNT \<and> isRamTrue RamTrue)"
    by simp
  from aggregate_seed_and_guard [of souffle_MIN RamTrue relR 0 "[]" "RamTupleElement 0 0"
      "RamProject relS [RamTupleElement 0 0]" 0 "newGenerator [] emptyEncoder" t]
    n h [unfolded minExample_def]
  obtain loop s1 t1 where
    "code s1 = code (newGenerator [] emptyEncoder) @
       [Op LVM_Aggregate, Op LVM_ITER_InitFullIndex, Size (iteratorIndex (newGenerator [] emptyEncoder)),
        Size (fst (encodeRelation relR (relationEncoder (newGenerator [] emptyEncoder)))),
        Op LVM_Number, Dom (aggregateSeed souffle_MIN)] @ loop @
       [Op LVM_Aggregate_Return, Size 0] @
       aggregateGuard souffle_MIN 0
         (lookupAddress (newGenerator [] emptyEncoder)
            (currentAddressLabel (newGenerator [] emptyEncoder) + 1))"
    and "visitOperation (RamProject relS [RamTupleElement 0 0]) 0 (tupleOperationHeader [] s1) =
       Inr t1"
    and "t = setAddress (currentAddressLabel (newGenerator [] emptyEncoder) + 1)
               (length (code t1)) t1"
    and "lookupAddress t (currentAddressLabel (newGenerator [] emptyEncoder) + 1) =
           length (code t)"
    by blast
  then show ?thesis
    using h
    by (simp add: newGenerator_def emptyEncoder_def relR_def encodeRelation_def
          aggregateGuard_def aggregateSeed_def lookupAddress_def Let_def) blast
qed

text \<open>
  Claim C5 as stated fails for a count whose condition is \<open>RamTrue\<close>: the shortcut
  emits no seed.
\<close>

theorem aggregate_seed_counterexample:
  "map_sum id code (visitOperation countIndexExample 0 (newGenerator [] emptyEncoder)) =
     Inr [Op LVM_IndexAggregate, Op LVM_ITER_InitFullIndex, Size 0, Size 0,
          Op LVM_Aggregate_COUNT, Size 0, Op LVM_Aggregate_Return, Size 0, Op LVM_Search,
          Dom 0, Size 0, Op LVM_TupleElement, Size 0, Size 0, Op LVM_Project, Size 1, Size 1] \<and>
   Op LVM_Number \<notin>
     set [Op LVM_IndexAggregate, Op LVM_ITER_InitFullIndex, Size 0, Size 0,
          Op LVM_Aggregate_COUNT, Size 0, Op LVM_Aggregate_Return, Size 0, Op LVM_Search,
          Dom 0, Size 0, Op LVM_TupleElement, Size 0, Size 0, Op LVM_Project, Size 1, Size 1]"
  by (simp add: countIndexExample_def newGenerator_def emptyEncoder_def relR_def relS_def
        aggregateBody_def initRangeIndex_def encodeRelation_def lookup_def case_prod_beta
        Let_def eval_nat_numeral)

end
